theory Spec2Isabelle
  imports Main "HOL-Library.Multiset"
begin

section \<open>Strings and numbers as the worker's JavaScript has them\<close>

text \<open>
  Byte strings and Latin-1 text are \<^typ>\<open>string\<close>; an \<open>ArrayBuffer\<close> is the list of
  its bytes. Numbers that the code only counts, compares and prints (sizes, versions,
  epoch milliseconds) are \<^typ>\<open>int\<close> or \<^typ>\<open>nat\<close>: every value printed below stays far
  under \<open>2^53\<close>, where a double is exact.
\<close>

type_synonym bytes = string

definition digit_char :: "nat \<Rightarrow> char" where
  "digit_char d = ''0123456789abcdefghijklmnopqrstuvwxyz'' ! d"

text \<open>\<open>Number.prototype.toString(radix)\<close> on a non-negative integer, radix 2 to 36.\<close>

function to_radix :: "nat \<Rightarrow> nat \<Rightarrow> string" where
  "to_radix b n =
     (if b < 2 \<or> n < b then [digit_char n]
      else to_radix b (n div b) @ [digit_char (n mod b)])"
  by pat_completeness auto
termination
  by (relation "measure snd") auto

declare to_radix.simps [simp del]

definition show_nat :: "nat \<Rightarrow> string" where
  "show_nat n = to_radix 10 n"

definition show_int :: "int \<Rightarrow> string" where
  "show_int i = (if i < 0 then CHR ''-'' # show_nat (nat (- i)) else show_nat (nat i))"

text \<open>ASCII lower-casing: what \<open>Headers\<close> does to a header name.\<close>

definition lower_char :: "char \<Rightarrow> char" where
  "lower_char c =
     (case map_of (zip ''ABCDEFGHIJKLMNOPQRSTUVWXYZ'' ''abcdefghijklmnopqrstuvwxyz'') c of
        Some l \<Rightarrow> l
      | None \<Rightarrow> c)"

definition toLowerCase :: "string \<Rightarrow> string" where
  "toLowerCase s = map lower_char s"

text \<open>\<open>s.startsWith(p)\<close>, \<open>s.includes(p)\<close>, \<open>s.split(c)\<close> for a one-character separator,
  and \<open>s.replace(p, '')\<close> for a literal pattern (the first occurrence only).\<close>

fun startsWith :: "string \<Rightarrow> string \<Rightarrow> bool" where
  "startsWith s [] = True"
| "startsWith [] (p # ps) = False"
| "startsWith (c # cs) (p # ps) = (c = p \<and> startsWith cs ps)"


fun split_on :: "char \<Rightarrow> string \<Rightarrow> string list" where
  "split_on sep [] = [[]]"
| "split_on sep (c # cs) =
     (if c = sep then [] # split_on sep cs
      else (case split_on sep cs of
              [] \<Rightarrow> [[c]]
            | w # ws \<Rightarrow> (c # w) # ws))"

fun remove_first :: "string \<Rightarrow> string \<Rightarrow> string" where
  "remove_first p [] = []"
| "remove_first p (c # cs) =
     (if startsWith (c # cs) p then drop (length p) (c # cs) else c # remove_first p cs)"

text \<open>\<open>xs[i]\<close> on a JavaScript array: \<open>undefined\<close> out of range.\<close>

definition at_index :: "'a list \<Rightarrow> nat \<Rightarrow> 'a option" where
  "at_index xs i = (if i < length xs then Some (xs ! i) else None)"

text \<open>
  \<open>parseInt(s, 10)\<close>: leading white space is skipped, one sign is read, then the longest
  run of decimal digits; no digit at all gives \<open>NaN\<close>, here \<open>None\<close>. An \<open>undefined\<close>
  argument is read as the text \<open>undefined\<close> and gives \<open>NaN\<close> as well.
\<close>

definition is_digit :: "char \<Rightarrow> bool" where
  "is_digit c = (c \<in> set ''0123456789'')"

definition digit_val :: "char \<Rightarrow> int" where
  "digit_val c = (case map_of (zip ''0123456789'' [0, 1, 2, 3, 4, 5, 6, 7, 8, 9]) c of
                    Some d \<Rightarrow> d | None \<Rightarrow> 0)"

definition is_js_space :: "char \<Rightarrow> bool" where
  "is_js_space c = ((of_char c :: nat) \<in> {9, 10, 11, 12, 13, 32, 160})"

definition digits_value :: "string \<Rightarrow> int" where
  "digits_value ds = foldl (\<lambda>acc c. acc * 10 + digit_val c) 0 ds"

definition parseInt10 :: "string option \<Rightarrow> int option" where
  "parseInt10 arg =
     (case arg of
        None \<Rightarrow> None
      | Some s \<Rightarrow>
          (let t = dropWhile is_js_space s;
               neg = (t \<noteq> [] \<and> hd t = CHR ''-'');
               u = (if t \<noteq> [] \<and> (hd t = CHR ''-'' \<or> hd t = CHR ''+'') then tl t else t);
               ds = takeWhile is_digit u
           in if ds = [] then None
              else Some (if neg then - digits_value ds else digits_value ds)))"

section \<open>Requests, headers and responses\<close>

text \<open>A \<open>Headers\<close> object: names are case-insensitive, so the map is keyed by the
  lower-cased name.\<close>

type_synonym headers = "string \<rightharpoonup> string"

definition hset :: "string \<Rightarrow> string \<Rightarrow> headers \<Rightarrow> headers" where
  "hset n v h = h(toLowerCase n \<mapsto> v)"

definition hget :: "headers \<Rightarrow> string \<Rightarrow> string option" where
  "hget h n = h (toLowerCase n)"

text \<open>A parsed URL (\<open>new URL(request.url)\<close>) and a request.\<close>

record url =
  origin :: string
  pathname :: string
  search :: string
  fragment :: string

record request =
  method' :: string
  url :: url
  headers :: headers
  body' :: bytes

text \<open>The body of a response: nothing, raw bytes or text, the JSON object of
  \<open>createErrorResponse\<close> (its \<open>timestamp\<close> field, the time of the call, is left out),
  or the JSON object of a successful metadata update (\<open>fileId\<close>, \<open>version\<close>,
  \<open>storage.versionStorage\<close>, \<open>storage.totalStorage\<close>), content update (\<open>fileId\<close>,
  \<open>version\<close>, \<open>size\<close> and the same two) or restore (\<open>fileId\<close>, \<open>restoredVersion\<close>,
  \<open>newVersion\<close>).\<close>

datatype body =
    NoBody
  | Raw bytes
  | ErrorJson string nat
  | MetadataUpdated string int nat nat
  | ContentUpdated string int nat nat nat
  | Restored string int int

record response =
  status :: nat
  rheaders :: headers
  rbody :: body

definition getCORSHeaders :: "(string \<times> string) list" where
  "getCORSHeaders =
     [(''Access-Control-Allow-Origin'', ''*''),
      (''Access-Control-Allow-Methods'', ''GET, HEAD, OPTIONS, POST, PUT, DELETE, PATCH''),
      (''Access-Control-Allow-Headers'', ''*''),
      (''Access-Control-Allow-Credentials'', ''false''),
      (''Access-Control-Max-Age'', ''86400''),
      (''Cross-Origin-Resource-Policy'', ''cross-origin''),
      (''Cross-Origin-Embedder-Policy'', ''unsafe-none''),
      (''Cross-Origin-Opener-Policy'', ''unsafe-none'')]"

definition set_all :: "(string \<times> string) list \<Rightarrow> headers \<Rightarrow> headers" where
  "set_all kvs h = foldl (\<lambda>acc kv. hset (fst kv) (snd kv) acc) h kvs"

definition createErrorResponse :: "nat \<Rightarrow> string \<Rightarrow> response" where
  "createErrorResponse st message =
     \<lparr>status = st,
      rheaders = set_all ((''Content-Type'', ''application/json'') # getCORSHeaders) Map.empty,
      rbody = ErrorJson message st\<rparr>"

section \<open>Range requests on a buffered media body\<close>

definition isMediaFile :: "string \<Rightarrow> bool" where
  "isMediaFile contentType =
     (startsWith contentType ''video/'' \<or> startsWith contentType ''audio/'' \<or>
      contentType = ''application/octet-stream'')"

text \<open>\<open>ArrayBuffer.prototype.slice(begin, end)\<close>: a negative index counts from the end,
  and both are clamped to the buffer.\<close>

definition slice :: "bytes \<Rightarrow> int \<Rightarrow> int \<Rightarrow> bytes" where
  "slice b from to =
     (let n = int (length b);
          f = (if from < 0 then max (n + from) 0 else min from n);
          t = (if to < 0 then max (n + to) 0 else min to n)
      in take (nat (t - f)) (drop (nat f) b))"

text \<open>The two numbers \<open>handleRangeRequest\<close> reads from the header:
  \<open>range = rangeHeader.replace(/bytes=/, '').split('-')\<close>,
  \<open>start = parseInt(range[0], 10) || 0\<close> and \<open>end = parseInt(range[1], 10) || fileSize - 1\<close>.
  \<open>||\<close> takes its right side when the left is \<open>NaN\<close> or \<open>0\<close>.\<close>

definition range_parts :: "string \<Rightarrow> string list" where
  "range_parts rangeHeader = split_on CHR ''-'' (remove_first ''bytes='' rangeHeader)"

definition or_default :: "int option \<Rightarrow> int \<Rightarrow> int" where
  "or_default v d = (case v of None \<Rightarrow> d | Some n \<Rightarrow> if n = 0 then d else n)"

definition range_start :: "string \<Rightarrow> int" where
  "range_start rangeHeader = or_default (parseInt10 (at_index (range_parts rangeHeader) 0)) 0"

definition range_end :: "nat \<Rightarrow> string \<Rightarrow> int" where
  "range_end fileSize rangeHeader =
     or_default (parseInt10 (at_index (range_parts rangeHeader) 1)) (int fileSize - 1)"

definition handleRangeRequest :: "bytes \<Rightarrow> string \<Rightarrow> headers \<Rightarrow> string \<Rightarrow> response" where
  "handleRangeRequest b rangeHeader hs contentType =
     (let fileSize = length b;
          start = range_start rangeHeader;
          end' = range_end fileSize rangeHeader
      in if start \<ge> int fileSize \<or> end' \<ge> int fileSize
         then \<lparr>status = 416,
               rheaders = hset ''Content-Range'' (''bytes */'' @ show_nat fileSize) hs,
               rbody = Raw ''Range Not Satisfiable''\<rparr>
         else (let chunkSize = (end' - start) + 1;
                   chunk = slice b start (end' + 1)
               in \<lparr>status = 206,
                   rheaders =
                     hset ''Content-Type'' contentType
                       (hset ''Content-Length'' (show_int chunkSize)
                         (hset ''Content-Range''
                            (''bytes '' @ show_int start @ ''-'' @ show_int end' @ ''/'' @
                             show_nat fileSize) hs)),
                   rbody = Raw chunk\<rparr>))"

section \<open>The stores behind the worker\<close>

text \<open>
  \<open>FileMetadata\<close> and \<open>FileVersion\<close> are the interfaces of the source. A field whose
  name is a constant of HOL carries a prime (\<open>id'\<close>, \<open>size'\<close>), and the \<open>version\<close> of a
  \<open>FileVersion\<close> is \<open>fv_version\<close>. \<open>tags\<close> and \<open>customFields\<close> are kept as data, not as the
  JSON text the stores hold.
\<close>

record FileMetadata =
  id' :: string
  name :: string
  originalName :: string
  path :: string
  mimeType :: string
  size' :: nat
  owner :: string
  ownerId :: string
  created :: int
  modified :: int
  version :: int
  isPublic :: bool
  tags :: "string list"
  description :: "string option"
  customFields :: "(string \<times> string) list option"

text \<open>The JSON object of a metadata update request, and any object spread over a
  \<open>FileMetadata\<close>: each field is there or not. Keys that are no field of \<open>FileMetadata\<close> are
  not modelled.\<close>

record patch =
  p_id :: "string option"
  p_name :: "string option"
  p_originalName :: "string option"
  p_path :: "string option"
  p_mimeType :: "string option"
  p_size :: "nat option"
  p_owner :: "string option"
  p_ownerId :: "string option"
  p_created :: "int option"
  p_modified :: "int option"
  p_version :: "int option"
  p_isPublic :: "bool option"
  p_tags :: "string list option"
  p_description :: "string option"
  p_customFields :: "(string \<times> string) list option"

definition or_else :: "'a option \<Rightarrow> 'a \<Rightarrow> 'a" where
  "or_else v d = (case v of None \<Rightarrow> d | Some x \<Rightarrow> x)"

text \<open>\<open>{...m, ...p}\<close>\<close>

definition apply_patch :: "FileMetadata \<Rightarrow> patch \<Rightarrow> FileMetadata" where
  "apply_patch m p =
     \<lparr>id' = or_else (p_id p) (id' m),
      name = or_else (p_name p) (name m),
      originalName = or_else (p_originalName p) (originalName m),
      path = or_else (p_path p) (path m),
      mimeType = or_else (p_mimeType p) (mimeType m),
      size' = or_else (p_size p) (size' m),
      owner = or_else (p_owner p) (owner m),
      ownerId = or_else (p_ownerId p) (ownerId m),
      created = or_else (p_created p) (created m),
      modified = or_else (p_modified p) (modified m),
      version = or_else (p_version p) (version m),
      isPublic = or_else (p_isPublic p) (isPublic m),
      tags = or_else (p_tags p) (tags m),
      description = (case p_description p of Some d \<Rightarrow> Some d | None \<Rightarrow> description m),
      customFields = (case p_customFields p of Some c \<Rightarrow> Some c | None \<Rightarrow> customFields m)\<rparr>"

text \<open>A whole \<open>FileMetadata\<close> used as the object of a spread (\<open>metadata: currentMetadata\<close>).\<close>

definition patch_of :: "FileMetadata \<Rightarrow> patch" where
  "patch_of m =
     \<lparr>p_id = Some (id' m), p_name = Some (name m), p_originalName = Some (originalName m),
      p_path = Some (path m), p_mimeType = Some (mimeType m), p_size = Some (size' m),
      p_owner = Some (owner m), p_ownerId = Some (ownerId m), p_created = Some (created m),
      p_modified = Some (modified m), p_version = Some (version m),
      p_isPublic = Some (isPublic m), p_tags = Some (tags m),
      p_description = description m, p_customFields = customFields m\<rparr>"

datatype changeType = Metadata | Content | Both

record changes =
  ch_metadata :: "patch option"
  contentSize :: "nat option"
  contentHash :: "string option"

record storage =
  contentBytes :: nat
  metadataBytes :: nat

record FileVersion =
  fv_version :: int
  timestamp :: int
  author :: "string option"
  authorId :: string
  changeType :: changeType
  changes :: changes
  storage :: storage

text \<open>The authenticated user, as the identity service returns it.\<close>

record user =
  u_id :: string
  u_name :: "string option"
  u_email :: "string option"
  u_role :: "string option"

text \<open>An entry of the per-user upload list: the object \<open>handleDirectUpload\<close> builds, and
  the stored entry, which adds \<open>createdAt\<close>. The two dates are ISO strings of a millisecond
  time stamp in the source and the time stamp itself here.\<close>

record upload_info =
  up_name :: string
  up_path :: "string option"
  up_storagePath :: "string option"
  up_size :: "nat option"
  up_fileSize :: "nat option"
  uploadedAt :: int

record upload = upload_info +
  createdAt :: int

text \<open>A row of the table \<open>assets\<close>, with the columns the queries of the versioned store and
  of the usage count name. \<open>None\<close> is SQL \<open>NULL\<close>. \<open>db_writable\<close> tells whether the \<open>UPDATE\<close>
  statements run: each stands in a \<open>try\<close> whose \<open>catch\<close> only logs, so that a failing
  statement leaves the table as it was.\<close>

record asset_row =
  a_id :: string
  a_name :: string
  a_original_name :: string
  a_path :: string
  a_mime_type :: string
  a_size :: nat
  a_file_size :: nat
  a_user_name :: "string option"
  a_user_id :: string
  a_created_at :: int
  a_updated_at :: "int option"
  a_version :: "int option"
  a_is_public :: "bool option"
  a_tags :: "string list option"
  a_description :: "string option"
  a_custom_fields :: "(string \<times> string) list option"

record db =
  db_rows :: "asset_row list"
  db_writable :: bool

text \<open>The metadata object stored beside an asset in \<open>CDN_CACHE\<close>.\<close>

record asset_meta =
  am_contentType :: "string option"
  am_size :: "string option"
  am_name :: "string option"
  am_description :: "string option"
  am_tags :: "string list option"
  am_customFields :: "(string \<times> string) list option"
  am_lastModified :: "int option"

record usage_ledger =
  ul_files :: int
  ul_versions :: int
  ul_total :: int
  ul_lastUpdated :: int

text \<open>
  The bindings of \<open>Env\<close>. A KV namespace is split by the prefix of its keys:
  \<open>file:{id}\<close>, \<open>user_uploads:{userId}\<close> and \<open>storage_usage:{userId}\<close> in \<open>CDN_METADATA\<close>,
  \<open>asset:{path}\<close> in \<open>CDN_CACHE\<close>, \<open>content:{id}\<close> in \<open>FILE_CONTENT\<close>, and
  \<open>version:{id}:{n}\<close>, \<open>version_content:{id}:{n}\<close> and \<open>versions:{id}\<close> in \<open>FILE_VERSIONS\<close>.
  Reads and writes of a KV namespace succeed.
\<close>

record env =
  ASSETS_DB :: "db option"
  CDN_METADATA_file :: "string \<rightharpoonup> FileMetadata"
  CDN_METADATA_user_uploads :: "string \<rightharpoonup> upload list"
  CDN_METADATA_storage_usage :: "string \<rightharpoonup> usage_ledger"
  CDN_CACHE_asset :: "string \<rightharpoonup> bytes \<times> asset_meta"
  FILE_CONTENT :: "string \<rightharpoonup> bytes"
  FILE_VERSIONS_version :: "string \<times> int \<rightharpoonup> FileVersion"
  FILE_VERSIONS_content :: "string \<times> int \<rightharpoonup> bytes"
  FILE_VERSIONS_index :: "string \<rightharpoonup> int list"

text \<open>What the platform computes and the model takes as given: the SHA-256 digest in
  hexadecimal, and the length of the UTF-8 encoding of \<open>JSON.stringify(metadata)\<close>.\<close>

record platform =
  sha256_hex :: "bytes \<Rightarrow> string"
  json_size :: "FileMetadata \<Rightarrow> nat"

section \<open>The versioned file store\<close>

text \<open>
  Every operation takes \<open>now\<close>, the reading of \<open>Date.now()\<close> during the invocation. The source
  reads the clock more than once in one invocation; no property below compares two
  readings of the same invocation, and the model takes them to be equal.
\<close>

definition metadata_of_row :: "asset_row \<Rightarrow> FileMetadata" where
  "metadata_of_row r =
     \<lparr>id' = a_id r,
      name = a_name r,
      originalName = a_original_name r,
      path = a_path r,
      mimeType = a_mime_type r,
      size' = a_size r,
      owner = (case a_user_name r of Some n \<Rightarrow> if n = [] then ''Unknown'' else n
               | None \<Rightarrow> ''Unknown''),
      ownerId = a_user_id r,
      created = a_created_at r,
      modified = (case a_updated_at r of Some t \<Rightarrow> t | None \<Rightarrow> a_created_at r),
      version = (case a_version r of Some v \<Rightarrow> if v = 0 then 1 else v | None \<Rightarrow> 1),
      isPublic = (case a_is_public r of Some b \<Rightarrow> b | None \<Rightarrow> False),
      tags = (case a_tags r of Some t \<Rightarrow> t | None \<Rightarrow> []),
      description = Some (case a_description r of Some d \<Rightarrow> d | None \<Rightarrow> []),
      customFields = Some (case a_custom_fields r of Some c \<Rightarrow> c | None \<Rightarrow> [])\<rparr>"

text \<open>The database is asked first, the key \<open>file:{id}\<close> of \<open>CDN_METADATA\<close> second.\<close>

definition getFileMetadata :: "env \<Rightarrow> string \<Rightarrow> FileMetadata option" where
  "getFileMetadata s fileId =
     (case (case ASSETS_DB s of
              Some d \<Rightarrow> find (\<lambda>r. a_id r = fileId) (db_rows d)
            | None \<Rightarrow> None) of
        Some r \<Rightarrow> Some (metadata_of_row r)
      | None \<Rightarrow> CDN_METADATA_file s fileId)"

text \<open>\<open>versionIndex.sort((a, b) => b - a)\<close>\<close>

definition sort_desc :: "int list \<Rightarrow> int list" where
  "sort_desc xs = rev (sort xs)"

definition delete_version :: "string \<Rightarrow> env \<Rightarrow> int \<Rightarrow> env" where
  "delete_version fileId s oldVersion =
     s\<lparr>FILE_VERSIONS_version := (FILE_VERSIONS_version s)((fileId, oldVersion) := None),
       FILE_VERSIONS_content := (FILE_VERSIONS_content s)((fileId, oldVersion) := None)\<rparr>"

definition createFileVersion ::
  "platform \<Rightarrow> int \<Rightarrow> FileMetadata \<Rightarrow> user \<Rightarrow> changeType \<Rightarrow> changes \<Rightarrow> env \<Rightarrow> env" where
  "createFileVersion P now metadata usr ct chs s =
     (let versionNumber = version metadata;
          metadataSize = json_size P metadata;
          currentContent =
            (if ct = Content \<or> ct = Both then FILE_CONTENT s (id' metadata) else None);
          contentSize = (case currentContent of Some c \<Rightarrow> length c | None \<Rightarrow> 0);
          s1 = (case currentContent of
                  Some c \<Rightarrow>
                    s\<lparr>FILE_VERSIONS_content :=
                        (FILE_VERSIONS_content s)((id' metadata, versionNumber) \<mapsto> c)\<rparr>
                | None \<Rightarrow> s);
          versionData =
            \<lparr>fv_version = versionNumber,
             timestamp = now,
             author = (case u_name usr of
                         Some n \<Rightarrow> if n = [] then u_email usr else Some n
                       | None \<Rightarrow> u_email usr),
             authorId = u_id usr,
             changeType = ct,
             changes = chs,
             storage = \<lparr>contentBytes = contentSize, metadataBytes = metadataSize\<rparr>\<rparr>;
          s2 = s1\<lparr>FILE_VERSIONS_version :=
                    (FILE_VERSIONS_version s1)((id' metadata, versionNumber) \<mapsto> versionData)\<rparr>;
          versionIndex = or_else (FILE_VERSIONS_index s2 (id' metadata)) []
      in if versionNumber \<notin> set versionIndex
         then (let sorted_index = sort_desc (versionIndex @ [versionNumber]);
                   trimmedIndex = take 50 sorted_index;
                   s3 = s2\<lparr>FILE_VERSIONS_index :=
                             (FILE_VERSIONS_index s2)(id' metadata \<mapsto> trimmedIndex)\<rparr>
               in foldl (delete_version (id' metadata)) s3 (drop 50 sorted_index))
         else s2)"

text \<open>The listing: the records of the index that exist, then
  \<open>versions.sort((a, b) => b.timestamp - a.timestamp)\<close>, a stable sort.\<close>

definition getFileVersions :: "env \<Rightarrow> string \<Rightarrow> FileVersion list" where
  "getFileVersions s fileId =
     (let versionIndex = or_else (FILE_VERSIONS_index s fileId) [];
          versions = List.map_filter (\<lambda>n. FILE_VERSIONS_version s (fileId, n)) versionIndex
      in sort_key (\<lambda>v. - timestamp v) versions)"

definition calculateFileVersionStorage :: "env \<Rightarrow> string \<Rightarrow> nat" where
  "calculateFileVersionStorage s fileId =
     foldl (\<lambda>total v. total + contentBytes (storage v) + metadataBytes (storage v)) 0
       (getFileVersions s fileId)"

text \<open>\<open>a || b\<close> on two strings that may be missing: the first that is there and not empty.\<close>

definition first_truthy :: "string option \<Rightarrow> string option \<Rightarrow> string option" where
  "first_truthy a b =
     (case a of
        Some x \<Rightarrow> if x = [] then b else Some x
      | None \<Rightarrow> b)"

definition calculateUserVersionStorage :: "env \<Rightarrow> string \<Rightarrow> nat" where
  "calculateUserVersionStorage s userId =
     foldl (\<lambda>total u.
              (case first_truthy (up_storagePath u) (up_path u) of
                 Some fileId \<Rightarrow>
                   if fileId = [] then total else total + calculateFileVersionStorage s fileId
               | None \<Rightarrow> total))
       0 (or_else (CDN_METADATA_user_uploads s userId) [])"

datatype usage_type = File | Version

definition updateUserStorageUsage :: "int \<Rightarrow> string \<Rightarrow> int \<Rightarrow> int \<Rightarrow> usage_type \<Rightarrow> env \<Rightarrow> env" where
  "updateUserStorageUsage now userId oldSize newSize ty s =
     (let currentUsage =
            or_else (CDN_METADATA_storage_usage s userId)
              \<lparr>ul_files = 0, ul_versions = 0, ul_total = 0, ul_lastUpdated = now\<rparr>;
          u1 = (if ty = Version
                then currentUsage\<lparr>ul_versions := ul_versions currentUsage + (newSize - oldSize)\<rparr>
                else currentUsage\<lparr>ul_files := ul_files currentUsage + (newSize - oldSize)\<rparr>);
          u2 = u1\<lparr>ul_total := ul_files u1 + ul_versions u1, ul_lastUpdated := now\<rparr>
      in s\<lparr>CDN_METADATA_storage_usage := (CDN_METADATA_storage_usage s)(userId \<mapsto> u2)\<rparr>)"

text \<open>\<open>UPDATE assets SET ... WHERE id = ? AND user_id = ?\<close>\<close>

definition db_update :: "string \<Rightarrow> string \<Rightarrow> (asset_row \<Rightarrow> asset_row) \<Rightarrow> env \<Rightarrow> env" where
  "db_update fileId userId f s =
     (case ASSETS_DB s of
        None \<Rightarrow> s
      | Some d \<Rightarrow>
          if db_writable d
          then s\<lparr>ASSETS_DB :=
                  Some (d\<lparr>db_rows :=
                     map (\<lambda>r. if a_id r = fileId \<and> a_user_id r = userId then f r else r)
                       (db_rows d)\<rparr>)\<rparr>
          else s)"

definition json_ok :: "response" where
  "json_ok =
     \<lparr>status = 200,
      rheaders = set_all ((''Content-Type'', ''application/json'') # getCORSHeaders) Map.empty,
      rbody = NoBody\<rparr>"

text \<open>\<open>updateData\<close> is \<open>None\<close> when the body of the request is not JSON: \<open>request.json()\<close>
  throws, and the handler answers 500.\<close>

definition updateFileMetadata ::
  "platform \<Rightarrow> int \<Rightarrow> string \<Rightarrow> user \<Rightarrow> patch option \<Rightarrow> env \<Rightarrow> response \<times> env" where
  "updateFileMetadata P now fileId usr body_json s =
     (case body_json of
        None \<Rightarrow> (createErrorResponse 500 ''Failed to update file metadata'', s)
      | Some updateData \<Rightarrow>
     (case getFileMetadata s fileId of
        None \<Rightarrow> (createErrorResponse 404 ''File not found'', s)
      | Some currentMetadata \<Rightarrow>
          (let s1 = createFileVersion P now currentMetadata usr Metadata
                      \<lparr>ch_metadata = Some updateData, contentSize = None, contentHash = None\<rparr> s;
               updatedMetadata =
                 (apply_patch currentMetadata updateData)
                   \<lparr>modified := now, version := version currentMetadata + 1\<rparr>;
               s2 = db_update fileId (u_id usr)
                      (\<lambda>r. r\<lparr>a_name := name updatedMetadata,
                              a_description := Some (or_else (description updatedMetadata) []),
                              a_tags := Some (tags updatedMetadata),
                              a_custom_fields := Some (or_else (customFields updatedMetadata) []),
                              a_version := Some (version updatedMetadata),
                              a_updated_at := Some now\<rparr>) s1;
               s3 = s2\<lparr>CDN_METADATA_file := (CDN_METADATA_file s2)(fileId \<mapsto> updatedMetadata)\<rparr>;
               s4 = (case CDN_CACHE_asset s3 (path currentMetadata) of
                       None \<Rightarrow> s3
                     | Some (v, existingMeta) \<Rightarrow>
                         if v = [] then s3
                         else s3\<lparr>CDN_CACHE_asset := (CDN_CACHE_asset s3)(path currentMetadata \<mapsto>
                                (v, \<lparr>am_contentType =
                                        Some (or_else (first_truthy (am_contentType existingMeta) None)
                                                (mimeType currentMetadata)),
                                      am_size =
                                        Some (or_else (first_truthy (am_size existingMeta) None)
                                                (show_nat (size' currentMetadata))),
                                      am_name = Some (name updatedMetadata),
                                      am_description = description updatedMetadata,
                                      am_tags = Some (tags updatedMetadata),
                                      am_customFields =
                                        Some (or_else (customFields updatedMetadata) []),
                                      am_lastModified = Some now\<rparr>))\<rparr>);
               metadataSize = json_size P currentMetadata;
               s5 = updateUserStorageUsage now (u_id usr) 0 (int metadataSize) Version s4
           in (json_ok\<lparr>rbody := MetadataUpdated fileId (version updatedMetadata) metadataSize
                                   (calculateUserVersionStorage s5 (u_id usr))\<rparr>, s5))))"

definition updateFileContent ::
  "platform \<Rightarrow> int \<Rightarrow> string \<Rightarrow> user \<Rightarrow> bytes \<Rightarrow> env \<Rightarrow> response \<times> env" where
  "updateFileContent P now fileId usr newContent s =
     (case getFileMetadata s fileId of
        None \<Rightarrow> (createErrorResponse 404 ''File not found'', s)
      | Some currentMetadata \<Rightarrow>
          (let currentContent = FILE_CONTENT s fileId;
               newSize = length newContent
           in if newSize = 0 then (createErrorResponse 400 ''Content cannot be empty'', s)
              else
               (let s1 = (case currentContent of
                            Some c \<Rightarrow>
                              createFileVersion P now currentMetadata usr Content
                                \<lparr>ch_metadata = None, contentSize = Some (length c),
                                 contentHash = Some (sha256_hex P c)\<rparr> s
                          | None \<Rightarrow> s);
                    s2 = s1\<lparr>FILE_CONTENT := (FILE_CONTENT s1)(fileId \<mapsto> newContent)\<rparr>;
                    s3 = s2\<lparr>CDN_CACHE_asset := (CDN_CACHE_asset s2)(path currentMetadata \<mapsto>
                              (newContent,
                               \<lparr>am_contentType = Some (mimeType currentMetadata),
                                am_size = Some (show_nat newSize),
                                am_name = None, am_description = None, am_tags = None,
                                am_customFields = None,
                                am_lastModified = Some now\<rparr>))\<rparr>;
                    updatedMetadata =
                      currentMetadata\<lparr>size' := newSize, modified := now,
                                       version := version currentMetadata + 1\<rparr>;
                    s4 = s3\<lparr>CDN_METADATA_file :=
                              (CDN_METADATA_file s3)(fileId \<mapsto> updatedMetadata)\<rparr>;
                    s5 = db_update fileId (u_id usr)
                           (\<lambda>r. r\<lparr>a_size := newSize, a_file_size := newSize,
                                   a_version := Some (version updatedMetadata),
                                   a_updated_at := Some now\<rparr>) s4;
                    oldContentSize = (case currentContent of Some c \<Rightarrow> length c | None \<Rightarrow> 0);
                    s6 = updateUserStorageUsage now (u_id usr) (int oldContentSize) (int newSize)
                           Version s5
                in (json_ok\<lparr>rbody := ContentUpdated fileId (version updatedMetadata) newSize
                                        oldContentSize
                                        (calculateUserVersionStorage s6 (u_id usr))\<rparr>, s6))))"

definition restoreFileVersion ::
  "platform \<Rightarrow> int \<Rightarrow> string \<Rightarrow> int \<Rightarrow> user \<Rightarrow> env \<Rightarrow> response \<times> env" where
  "restoreFileVersion P now fileId ver usr s =
     (case FILE_VERSIONS_version s (fileId, ver) of
        None \<Rightarrow> (createErrorResponse 404 ''Version not found'', s)
      | Some versionData \<Rightarrow>
     (case getFileMetadata s fileId of
        None \<Rightarrow> (createErrorResponse 404 ''File not found'', s)
      | Some currentMetadata \<Rightarrow>
          (let s1 = createFileVersion P now currentMetadata usr Both
                      \<lparr>ch_metadata = Some (patch_of currentMetadata),
                       contentSize = Some (size' currentMetadata), contentHash = None\<rparr> s;
               s2 = (if changeType versionData = Metadata \<or> changeType versionData = Both
                     then (case ch_metadata (changes versionData) of
                             Some m \<Rightarrow>
                               s1\<lparr>CDN_METADATA_file := (CDN_METADATA_file s1)(fileId \<mapsto>
                                    (apply_patch currentMetadata m)
                                      \<lparr>version := version currentMetadata + 1,
                                       modified := now\<rparr>)\<rparr>
                           | None \<Rightarrow> s1)
                     else s1);
               s3 = (if changeType versionData = Content \<or> changeType versionData = Both
                     then (case FILE_VERSIONS_content s2 (fileId, ver) of
                             Some versionContent \<Rightarrow>
                               s2\<lparr>FILE_CONTENT := (FILE_CONTENT s2)(fileId \<mapsto> versionContent)\<rparr>
                           | None \<Rightarrow> s2)
                     else s2)
           in (json_ok\<lparr>rbody := Restored fileId ver (version currentMetadata + 1)\<rparr>, s3))))"

section \<open>Upload tracking and quota\<close>

text \<open>\<open>existingUploads.push({...fileMetadata, createdAt: fileMetadata.uploadedAt})\<close>, then the
  stable sort by \<open>createdAt\<close>, newest first, and \<open>slice(0, 1000)\<close>.\<close>

definition trackUserUpload :: "string \<Rightarrow> upload_info \<Rightarrow> env \<Rightarrow> env" where
  "trackUserUpload userId fileMetadata s =
     (let existingUploads = or_else (CDN_METADATA_user_uploads s userId) [];
          pushed = existingUploads @
                     [upload_info.extend fileMetadata
                        (upload.fields (uploadedAt fileMetadata))];
          recentUploads = take 1000 (sort_key (\<lambda>u. - createdAt u) pushed)
      in s\<lparr>CDN_METADATA_user_uploads :=
             (CDN_METADATA_user_uploads s)(userId \<mapsto> recentUploads)\<rparr>)"
















section \<open>The cache key of a request\<close>

text \<open>\<open>btoa\<close>: base64 of a string of 8-bit characters, with padding. (It throws on a
  character above 255; a \<^typ>\<open>char\<close> has none.)\<close>

definition b64_char :: "nat \<Rightarrow> char" where
  "b64_char n =
     ''ABCDEFGHIJKLMNOPQRSTUVWXYZabcdefghijklmnopqrstuvwxyz0123456789+/'' ! n"

fun btoa_codes :: "nat list \<Rightarrow> string" where
  "btoa_codes [] = []"
| "btoa_codes [a] = [b64_char (a div 4), b64_char ((a mod 4) * 16), CHR ''='', CHR ''='']"
| "btoa_codes [a, b] =
     [b64_char (a div 4), b64_char ((a mod 4) * 16 + b div 16), b64_char ((b mod 16) * 4),
      CHR ''='']"
| "btoa_codes (a # b # c # rest) =
     [b64_char (a div 4), b64_char ((a mod 4) * 16 + b div 16),
      b64_char ((b mod 16) * 4 + c div 64), b64_char (c mod 64)] @ btoa_codes rest"

definition btoa :: "string \<Rightarrow> string" where
  "btoa s = btoa_codes (map of_char s)"

definition is_alnum :: "char \<Rightarrow> bool" where
  "is_alnum c =
     (c \<in> set ''abcdefghijklmnopqrstuvwxyzABCDEFGHIJKLMNOPQRSTUVWXYZ0123456789'')"

text \<open>\<open>parts.join(sep)\<close>\<close>

fun join :: "string \<Rightarrow> string list \<Rightarrow> string" where
  "join sep [] = []"
| "join sep [x] = x"
| "join sep (x # y # ys) = x @ sep @ join sep (y # ys)"

definition hashRequest :: "request \<Rightarrow> string" where
  "hashRequest req =
     (let key = method' req @ '':'' @ pathname (url req) @ search (url req);
          relevantHeaders = [''authorization'', ''accept'', ''accept-language''];
          headerValues = join '':'' (map (\<lambda>h. or_else (hget (headers req) h) []) relevantHeaders)
      in take 32 (filter is_alnum (btoa (key @ '':'' @ headerValues))))"

section \<open>What the version ledger keeps true\<close>

text \<open>
  An index is in order when it has at most 50 entries, strictly descending. A store is in
  order when each of its indexes is, and the record under \<open>version:{id}:{n}\<close> has number
  \<open>n\<close>. The empty store is in order and \<open>createFileVersion\<close>, the only writer of
  \<open>FILE_VERSIONS\<close>, keeps a store in order (both are proved below).
\<close>

definition index_ok :: "int list \<Rightarrow> bool" where
  "index_ok ix \<longleftrightarrow> length ix \<le> 50 \<and> sorted_wrt (\<lambda>a b. a > b) ix"

definition versions_ok :: "env \<Rightarrow> bool" where
  "versions_ok s \<longleftrightarrow>
     (\<forall>fileId. index_ok (or_else (FILE_VERSIONS_index s fileId) [])) \<and>
     (\<forall>fileId n v. FILE_VERSIONS_version s (fileId, n) = Some v \<longrightarrow> fv_version v = n)"

text \<open>The time stamps of the records of a file do not decrease with the version number.\<close>

definition timestamps_follow_versions :: "env \<Rightarrow> string \<Rightarrow> bool" where
  "timestamps_follow_versions s fileId \<longleftrightarrow>
     (\<forall>n m v w. n < m \<and> FILE_VERSIONS_version s (fileId, n) = Some v \<and>
                FILE_VERSIONS_version s (fileId, m) = Some w \<longrightarrow> timestamp v \<le> timestamp w)"

text \<open>The three key families of \<open>FILE_VERSIONS\<close> together.\<close>

definition file_versions ::
  "env \<Rightarrow> (string \<times> int \<rightharpoonup> FileVersion) \<times> (string \<times> int \<rightharpoonup> bytes) \<times> (string \<rightharpoonup> int list)" where
  "file_versions s = (FILE_VERSIONS_version s, FILE_VERSIONS_content s, FILE_VERSIONS_index s)"

text \<open>The version of a file as the store gives it to the next request.\<close>

definition live_version :: "env \<Rightarrow> string \<Rightarrow> int option" where
  "live_version s fileId = map_option version (getFileMetadata s fileId)"

section \<open>The worker proxy and its cache layers\<close>
































section \<open>The obfuscated storage path\<close>






























text \<open>A path segment has no separator in it.\<close>

definition slash_free :: "string \<Rightarrow> bool" where
  "slash_free s \<longleftrightarrow> CHR ''/'' \<notin> set s"

section \<open>Example states\<close>

text \<open>Concrete values on which the theorems below are run.\<close>

definition empty_env :: env where
  "empty_env =
     \<lparr>ASSETS_DB = None, CDN_METADATA_file = Map.empty, CDN_METADATA_user_uploads = Map.empty,
      CDN_METADATA_storage_usage = Map.empty, CDN_CACHE_asset = Map.empty,
      FILE_CONTENT = Map.empty, FILE_VERSIONS_version = Map.empty,
      FILE_VERSIONS_content = Map.empty, FILE_VERSIONS_index = Map.empty\<rparr>"

definition upload_example :: "nat \<Rightarrow> int \<Rightarrow> upload" where
  "upload_example sz t =
     \<lparr>up_name = ''note.txt'', up_path = Some ''/prod/na/a/b/c/n.txt/object/live.m3u8'',
      up_storagePath = Some ''/prod/na/a/b/c/n.txt'', up_size = Some sz, up_fileSize = None,
      uploadedAt = t, createdAt = t\<rparr>"

definition user_example :: "string \<Rightarrow> user" where
  "user_example r = \<lparr>u_id = ''u1'', u_name = Some ''Ann'', u_email = None, u_role = Some r\<rparr>"


definition get_example :: "string \<Rightarrow> string \<Rightarrow> (string \<times> string) list \<Rightarrow> bytes \<Rightarrow> request" where
  "get_example org q hs b =
     \<lparr>method' = ''GET'',
      url = \<lparr>origin = org, pathname = ''/worker/auth/v2/login'', search = q, fragment = []\<rparr>,
      headers = set_all hs Map.empty,
      body' = b\<rparr>"

definition info_example :: "int \<Rightarrow> upload_info" where
  "info_example t =
     \<lparr>up_name = ''new.txt'', up_path = Some ''/prod/na/x/y/z/q.txt/object/live.m3u8'',
      up_storagePath = Some ''/prod/na/x/y/z/q.txt'', up_size = Some 5, up_fileSize = None,
      uploadedAt = t\<rparr>"

definition platform_example :: platform where
  "platform_example = \<lparr>sha256_hex = (\<lambda>b. ''h:'' @ b), json_size = (\<lambda>m. 200 + length (name m))\<rparr>"

definition file_example :: "int \<Rightarrow> FileMetadata" where
  "file_example v =
     \<lparr>id' = ''f1'', name = ''old.txt'', originalName = ''old.txt'',
      path = ''/prod/na/a/b/c/n.txt'', mimeType = ''text/plain'', size' = 3,
      owner = ''Ann'', ownerId = ''u1'', created = 100, modified = 100, version = v,
      isPublic = False, tags = [], description = None, customFields = None\<rparr>"

definition empty_patch :: patch where
  "empty_patch =
     \<lparr>p_id = None, p_name = None, p_originalName = None, p_path = None, p_mimeType = None,
      p_size = None, p_owner = None, p_ownerId = None, p_created = None, p_modified = None,
      p_version = None, p_isPublic = None, p_tags = None, p_description = None,
      p_customFields = None\<rparr>"

definition store_example :: "int \<Rightarrow> env" where
  "store_example v =
     empty_env\<lparr>CDN_METADATA_file := [''f1'' \<mapsto> file_example v],
                FILE_CONTENT := [''f1'' \<mapsto> ''aaa'']\<rparr>"

definition rename_example :: patch where
  "rename_example = empty_patch\<lparr>p_name := Some ''new.txt''\<rparr>"

definition after_content_update :: env where
  "after_content_update =
     snd (updateFileContent platform_example 1000 ''f1'' (user_example ''user'') ''bbbb'' (store_example 2))"

definition clock_example :: env where
  "clock_example =
     createFileVersion platform_example 1000 (file_example 2) (user_example ''user'') Metadata
       \<lparr>ch_metadata = Some rename_example, contentSize = None, contentHash = None\<rparr>
       (createFileVersion platform_example 2000 (file_example 1) (user_example ''user'') Metadata
          \<lparr>ch_metadata = Some rename_example, contentSize = None, contentHash = None\<rparr>
          empty_env)"

definition version_example :: "int \<Rightarrow> int \<Rightarrow> FileVersion" where
  "version_example n t =
     \<lparr>fv_version = n, timestamp = t, author = Some ''Ann'', authorId = ''u1'',
      changeType = Content,
      changes = \<lparr>ch_metadata = None, contentSize = Some 3, contentHash = Some ''h:old''\<rparr>,
      storage = \<lparr>contentBytes = 3, metadataBytes = 200\<rparr>\<rparr>"

definition full_ledger :: env where
  "full_ledger =
     empty_env
       \<lparr>CDN_METADATA_file := [''f1'' \<mapsto> file_example 51],
        FILE_VERSIONS_version :=
          (\<lambda>k. if fst k = ''f1'' \<and> 1 \<le> snd k \<and> snd k \<le> 50
               then Some (version_example (snd k) (1000 * snd k)) else None),
        FILE_VERSIONS_content :=
          (\<lambda>k. if fst k = ''f1'' \<and> 1 \<le> snd k \<and> snd k \<le> 50 then Some ''old'' else None),
        FILE_VERSIONS_index := [''f1'' \<mapsto> rev [1..50]]\<rparr>"







text \<open>Two files side by side, and five metadata updates at strictly increasing times: three
  of the second file, then two of the first, the first of which carries an \<^verbatim>\<open>id\<close> field that
  names the second file.\<close>

definition two_files :: env where
  "two_files =
     empty_env\<lparr>CDN_METADATA_file :=
       [''f1'' \<mapsto> file_example 1, ''f2'' \<mapsto> (file_example 1)\<lparr>id' := ''f2''\<rparr>]\<rparr>"

definition describe :: "string \<Rightarrow> patch" where
  "describe d = empty_patch\<lparr>p_description := Some d\<rparr>"

definition update_at :: "int \<Rightarrow> string \<Rightarrow> patch \<Rightarrow> env \<Rightarrow> env" where
  "update_at now fileId p s = snd (updateFileMetadata platform_example now fileId (user_example ''user'') (Some p) s)"

definition five_updates :: env where
  "five_updates =
     update_at 5000 ''f1'' (describe ''e'')
       (update_at 4000 ''f1'' (empty_patch\<lparr>p_id := Some ''f2''\<rparr>)
          (update_at 3000 ''f2'' (describe ''c'')
             (update_at 2000 ''f2'' (describe ''b'')
                (update_at 1000 ''f2'' (describe ''a'') two_files))))"

definition meta_change :: "patch \<Rightarrow> changes" where
  "meta_change p = \<lparr>ch_metadata = Some p, contentSize = None, contentHash = None\<rparr>"

definition record_at :: "int \<Rightarrow> FileMetadata \<Rightarrow> patch \<Rightarrow> env \<Rightarrow> env" where
  "record_at now m p s =
     createFileVersion platform_example now m (user_example ''user'') Metadata (meta_change p) s"

definition f2_0 :: FileMetadata where "f2_0 = (file_example 1)\<lparr>id' := ''f2''\<rparr>"

definition f2_1 :: FileMetadata where
  "f2_1 = (apply_patch f2_0 (describe ''a''))\<lparr>modified := 1000, version := 2\<rparr>"

definition f2_2 :: FileMetadata where
  "f2_2 = (apply_patch f2_1 (describe ''b''))\<lparr>modified := 2000, version := 3\<rparr>"

definition f1_1 :: FileMetadata where
  "f1_1 = (apply_patch (file_example 1) (empty_patch\<lparr>p_id := Some ''f2''\<rparr>))\<lparr>modified := 4000, version := 2\<rparr>"

section \<open>Properties\<close>

subsection \<open>Range requests\<close>

lemma hget_hset_same: "hget (hset n v h) n = Some v"
  by (simp add: hget_def hset_def)

lemma lower_CR: "toLowerCase ''Content-Range'' = ''content-range''"
  by (simp add: toLowerCase_def lower_char_def)

lemma lower_CL: "toLowerCase ''Content-Length'' = ''content-length''"
  by (simp add: toLowerCase_def lower_char_def)

lemma lower_CT: "toLowerCase ''Content-Type'' = ''content-type''"
  by (simp add: toLowerCase_def lower_char_def)

lemma slice_inside:
  assumes "0 \<le> s" "s \<le> e" "e < int (length b)"
  shows "slice b s (e + 1) = take (nat (e - s + 1)) (drop (nat s) b)"
proof -
  have "min s (int (length b)) = s" "min (e + 1) (int (length b)) = e + 1"
    using assms by auto
  moreover have "\<not> s < 0" "\<not> e + 1 < 0" using assms by auto
  ultimately show ?thesis
    by (simp add: slice_def Let_def algebra_simps)
qed

text \<open>Over \<open>start\<close> and \<open>end\<close> as the handler holds them after the two \<open>||\<close> defaults:
  if \<open>start \<ge> fileSize\<close> or \<open>end \<ge> fileSize\<close> the answer is 416 with
  \<open>Content-Range: bytes */{fileSize}\<close>; if \<open>0 \<le> start \<le> end < fileSize\<close> the answer is 206
  with \<open>Content-Range: bytes {start}-{end}/{fileSize}\<close>, \<open>Content-Length\<close> equal to
  \<open>end - start + 1\<close>, and the bytes \<open>start..end\<close> of the buffer as its body. These are the
  numbers of the header except where the header gives \<open>0\<close> or no number.\<close>

lemma handleRangeRequest_after_defaults:
  "(range_start rangeHeader \<ge> int (length b) \<or> range_end (length b) rangeHeader \<ge> int (length b) \<longrightarrow>
      status (handleRangeRequest b rangeHeader hs contentType) = 416 \<and>
      hget (rheaders (handleRangeRequest b rangeHeader hs contentType)) ''Content-Range'' =
        Some (''bytes */'' @ show_nat (length b))) \<and>
   (0 \<le> range_start rangeHeader \<and> range_start rangeHeader \<le> range_end (length b) rangeHeader \<and>
    range_end (length b) rangeHeader < int (length b) \<longrightarrow>
      status (handleRangeRequest b rangeHeader hs contentType) = 206 \<and>
      hget (rheaders (handleRangeRequest b rangeHeader hs contentType)) ''Content-Range'' =
        Some (''bytes '' @ show_int (range_start rangeHeader) @ ''-'' @
              show_int (range_end (length b) rangeHeader) @ ''/'' @ show_nat (length b)) \<and>
      hget (rheaders (handleRangeRequest b rangeHeader hs contentType)) ''Content-Length'' =
        Some (show_int (range_end (length b) rangeHeader - range_start rangeHeader + 1)) \<and>
      rbody (handleRangeRequest b rangeHeader hs contentType) =
        Raw (take (nat (range_end (length b) rangeHeader - range_start rangeHeader + 1))
               (drop (nat (range_start rangeHeader)) b)))"
proof (intro conjI impI)
  assume out: "range_start rangeHeader \<ge> int (length b) \<or>
               range_end (length b) rangeHeader \<ge> int (length b)"
  then show "status (handleRangeRequest b rangeHeader hs contentType) = 416"
    by (auto simp: handleRangeRequest_def Let_def)
  from out show "hget (rheaders (handleRangeRequest b rangeHeader hs contentType)) ''Content-Range'' =
        Some (''bytes */'' @ show_nat (length b))"
    by (auto simp: handleRangeRequest_def Let_def hget_hset_same)
next
  assume ins: "0 \<le> range_start rangeHeader \<and>
               range_start rangeHeader \<le> range_end (length b) rangeHeader \<and>
               range_end (length b) rangeHeader < int (length b)"
  then have no: "\<not> (range_start rangeHeader \<ge> int (length b) \<or>
                     range_end (length b) rangeHeader \<ge> int (length b))"
    by auto
  have r: "handleRangeRequest b rangeHeader hs contentType =
      \<lparr>status = 206,
       rheaders =
         hset ''Content-Type'' contentType
           (hset ''Content-Length''
              (show_int (range_end (length b) rangeHeader - range_start rangeHeader + 1))
              (hset ''Content-Range''
                 (''bytes '' @ show_int (range_start rangeHeader) @ ''-'' @
                  show_int (range_end (length b) rangeHeader) @ ''/'' @ show_nat (length b)) hs)),
       rbody = Raw (slice b (range_start rangeHeader) (range_end (length b) rangeHeader + 1))\<rparr>"
    using no unfolding handleRangeRequest_def Let_def by (simp only: if_False)
  show "status (handleRangeRequest b rangeHeader hs contentType) = 206"
    by (simp add: r)
  show "hget (rheaders (handleRangeRequest b rangeHeader hs contentType)) ''Content-Range'' =
        Some (''bytes '' @ show_int (range_start rangeHeader) @ ''-'' @
              show_int (range_end (length b) rangeHeader) @ ''/'' @ show_nat (length b))"
    by (simp add: r hget_def hset_def lower_CR lower_CL lower_CT)
  show "hget (rheaders (handleRangeRequest b rangeHeader hs contentType)) ''Content-Length'' =
        Some (show_int (range_end (length b) rangeHeader - range_start rangeHeader + 1))"
    by (simp add: r hget_def hset_def lower_CR lower_CL lower_CT)
  show "rbody (handleRangeRequest b rangeHeader hs contentType) =
        Raw (take (nat (range_end (length b) rangeHeader - range_start rangeHeader + 1))
               (drop (nat (range_start rangeHeader)) b))"
    using ins by (simp add: r slice_inside)
qed

lemma rs1: "range_start ''bytes=2-5'' = 2" by code_simp
lemma re1: "range_end 10 ''bytes=2-5'' = 5" by code_simp
lemma rs2: "range_start ''bytes=5-20'' = 5" by code_simp
lemma re2: "range_end 10 ''bytes=5-20'' = 20" by code_simp
lemma sh: "show_nat 10 = ''10''" "show_int 2 = ''2''" "show_int 5 = ''5''" "show_int 4 = ''4''"
  by (simp_all add: show_int_def show_nat_def to_radix.simps digit_char_def)

lemma handleRangeRequest_after_defaults_example:
  "status (handleRangeRequest ''0123456789'' ''bytes=5-20'' Map.empty ''video/mp4'') = 416 \<and>
   hget (rheaders (handleRangeRequest ''0123456789'' ''bytes=5-20'' Map.empty ''video/mp4''))
     ''Content-Range'' = Some ''bytes */10'' \<and>
   status (handleRangeRequest ''0123456789'' ''bytes=2-5'' Map.empty ''video/mp4'') = 206 \<and>
   hget (rheaders (handleRangeRequest ''0123456789'' ''bytes=2-5'' Map.empty ''video/mp4''))
     ''Content-Range'' = Some ''bytes 2-5/10'' \<and>
   hget (rheaders (handleRangeRequest ''0123456789'' ''bytes=2-5'' Map.empty ''video/mp4''))
     ''Content-Length'' = Some ''4'' \<and>
   rbody (handleRangeRequest ''0123456789'' ''bytes=2-5'' Map.empty ''video/mp4'') = Raw ''2345''"
proof -
  have len: "length ''0123456789'' = 10" by simp
  note out = handleRangeRequest_after_defaults
    [where b = "''0123456789''" and rangeHeader = "''bytes=5-20''" and hs = Map.empty
       and contentType = "''video/mp4''", unfolded len rs2 re2]
  note ins = handleRangeRequest_after_defaults
    [where b = "''0123456789''" and rangeHeader = "''bytes=2-5''" and hs = Map.empty
       and contentType = "''video/mp4''", unfolded len rs1 re1]
  from out ins show ?thesis by (simp add: sh)
qed

text \<open>An end of \<open>0\<close> in the header is read as no end at all, since \<open>0 || fileSize - 1\<close>
  is \<open>fileSize - 1\<close>.\<close>

lemma range_end_zero:
  assumes "parseInt10 (at_index (range_parts rangeHeader) 1) = Some 0"
  shows "range_end fileSize rangeHeader = int fileSize - 1"
  using assms by (simp add: range_end_def or_default_def)

lemma range_zero_end_is_whole_body:
  "range_end 10 ''bytes=0-0'' = 9"
  by code_simp

lemma rs0: "range_start ''bytes=0-0'' = 0" by code_simp

lemma parsed_zero_zero:
  "parseInt10 (at_index (range_parts ''bytes=0-0'') 0) = Some 0"
  "parseInt10 (at_index (range_parts ''bytes=0-0'') 1) = Some 0"
  by code_simp+

lemma sh0: "show_int 0 = ''0''" "show_int 9 = ''9''" "show_int 10 = ''10''"
  by (simp_all add: show_int_def show_nat_def to_radix.simps digit_char_def)

text \<open>
  \<^bold>\<open>C5.\<close> The claim: for every buffered body and every \<open>Range\<close> request, a parsed start or end
  at or beyond \<open>fileSize\<close> is answered 416 with \<open>Content-Range: bytes */{fileSize}\<close>, and a
  range fully inside bounds, \<open>0 \<le> start \<le> end < fileSize\<close>, is answered 206 with
  \<open>Content-Range: bytes {start}-{end}/{fileSize}\<close>, \<open>Content-Length\<close> equal to
  \<open>end - start + 1\<close> and exactly the bytes \<open>start..end\<close> as body. The code does not do this
  for an end of \<open>0\<close>: on the ten-byte body \<open>0123456789\<close> the header \<open>bytes=0-0\<close> parses to
  start \<open>0\<close> and end \<open>0\<close>, a range inside bounds, and the answer is 206 with
  \<open>Content-Range: bytes 0-9/10\<close>, \<open>Content-Length: 10\<close> and all ten bytes, where the claim
  asks for \<open>bytes 0-0/10\<close>, length \<open>1\<close> and the single byte \<open>0\<close>.
\<close>

theorem handleRangeRequest_zero_end_whole_body:
  "parseInt10 (at_index (range_parts ''bytes=0-0'') 0) = Some 0 \<and>
   parseInt10 (at_index (range_parts ''bytes=0-0'') 1) = Some 0 \<and>
   status (handleRangeRequest ''0123456789'' ''bytes=0-0'' Map.empty ''video/mp4'') = 206 \<and>
   hget (rheaders (handleRangeRequest ''0123456789'' ''bytes=0-0'' Map.empty ''video/mp4''))
     ''Content-Range'' = Some ''bytes 0-9/10'' \<and>
   hget (rheaders (handleRangeRequest ''0123456789'' ''bytes=0-0'' Map.empty ''video/mp4''))
     ''Content-Length'' = Some ''10'' \<and>
   rbody (handleRangeRequest ''0123456789'' ''bytes=0-0'' Map.empty ''video/mp4'') =
     Raw ''0123456789''"
proof -
  have len: "length ''0123456789'' = 10" by simp
  note ins = handleRangeRequest_after_defaults
    [where b = "''0123456789''" and rangeHeader = "''bytes=0-0''" and hs = Map.empty
       and contentType = "''video/mp4''", unfolded len rs0 range_zero_end_is_whole_body]
  from ins parsed_zero_zero show ?thesis by (simp add: sh sh0)
qed

subsection \<open>Quota\<close>






lemma lower_auth: "toLowerCase ''Authorization'' = ''authorization''"
  by (simp add: toLowerCase_def lower_char_def)


subsection \<open>The cache key\<close>

text \<open>
  \<^bold>\<open>C9.\<close> Two requests with the same method, the same path and query string of their URL
  and the same values of the headers \<open>authorization\<close>, \<open>accept\<close> and \<open>accept-language\<close>
  get the same key from \<open>hashRequest\<close>, whatever their other headers, their bodies and the
  rest of their URLs are.
\<close>

theorem hashRequest_depends_only_on_key_inputs:
  assumes "method' r1 = method' r2"
    and "pathname (url r1) = pathname (url r2)"
    and "search (url r1) = search (url r2)"
    and "\<forall>h \<in> {''authorization'', ''accept'', ''accept-language''}.
           hget (headers r1) h = hget (headers r2) h"
  shows "hashRequest r1 = hashRequest r2"
  using assms by (simp add: hashRequest_def)

lemma lowers:
  "toLowerCase ''accept'' = ''accept''"
  "toLowerCase ''Accept'' = ''accept''"
  "toLowerCase ''authorization'' = ''authorization''"
  "toLowerCase ''accept-language'' = ''accept-language''"
  "toLowerCase ''User-Agent'' = ''user-agent''"
  "toLowerCase ''Cookie'' = ''cookie''"
  by (simp_all add: toLowerCase_def lower_char_def)

theorem hashRequest_depends_only_on_key_inputs_witness:
  "hashRequest (get_example ''https://a.example'' ''?a=1''
       [(''Accept'', ''text/html''), (''User-Agent'', ''curl'')] ''one'') =
   hashRequest (get_example ''https://b.example'' ''?a=1''
       [(''Accept'', ''text/html''), (''Cookie'', ''k=v'')] ''two'')"
proof -
  let ?r1 = "get_example ''https://a.example'' ''?a=1''
       [(''Accept'', ''text/html''), (''User-Agent'', ''curl'')] ''one''"
  let ?r2 = "get_example ''https://b.example'' ''?a=1''
       [(''Accept'', ''text/html''), (''Cookie'', ''k=v'')] ''two''"
  have "\<forall>h \<in> {''authorization'', ''accept'', ''accept-language''}.
           hget (headers ?r1) h = hget (headers ?r2) h"
    by (simp add: get_example_def set_all_def hget_def hset_def lowers)
  then show ?thesis
    by (intro hashRequest_depends_only_on_key_inputs) (simp_all add: get_example_def)
qed

lemma hashRequest_example:
  "hashRequest (get_example ''https://a.example'' ''?a=1''
       [(''Accept'', ''text/html''), (''User-Agent'', ''curl'')] ''one'') =
   ''R0VUOi93b3JrZXIvYXV0aC92Mi9sb2dp''"
  by code_simp

subsection \<open>The per-user upload list\<close>

lemma sorted_desc_sort_key:
  "sorted_wrt (\<lambda>a b. f a \<ge> f b) (sort_key (\<lambda>u. - f u) (xs :: 'a list))"
  for f :: "'a \<Rightarrow> int"
proof -
  have "sorted (map (\<lambda>u. - f u) (sort_key (\<lambda>u. - f u) xs))"
    by (rule sorted_sort_key)
  then show ?thesis
    by (simp add: sorted_map) 
qed

lemma sorted_wrt_take_drop:
  assumes "sorted_wrt R xs"
  shows "\<forall>k \<in> set (take n xs). \<forall>d \<in> set (drop n xs). R k d"
proof -
  from assms have "sorted_wrt R (take n xs @ drop n xs)" by simp
  then show ?thesis unfolding sorted_wrt_append by blast
qed

text \<open>
  \<^bold>\<open>C10.\<close> After \<open>trackUserUpload\<close> the list stored under \<open>user_uploads:{userId}\<close> is the
  first 1000 entries of the old list with the new entry, sorted by \<open>createdAt\<close> with the
  newest first: it has at most 1000 entries, and no entry left out is more recent than a
  kept one.
\<close>

theorem trackUserUpload_keeps_most_recent:
  "\<exists>srt.
     mset srt =
       mset (or_else (CDN_METADATA_user_uploads s userId) [] @
             [upload_info.extend fileMetadata (upload.fields (uploadedAt fileMetadata))]) \<and>
     sorted_wrt (\<lambda>a b. createdAt a \<ge> createdAt b) srt \<and>
     CDN_METADATA_user_uploads (trackUserUpload userId fileMetadata s) userId =
       Some (take 1000 srt) \<and>
     length (take 1000 srt) \<le> 1000 \<and>
     (\<forall>k \<in> set (take 1000 srt). \<forall>d \<in> set (drop 1000 srt). createdAt d \<le> createdAt k)"
proof -
  let ?pushed = "or_else (CDN_METADATA_user_uploads s userId) [] @
             [upload_info.extend fileMetadata (upload.fields (uploadedAt fileMetadata))]"
  let ?srt = "sort_key (\<lambda>u. - createdAt u) ?pushed"
  have 1: "mset ?srt = mset ?pushed" by simp
  have 2: "sorted_wrt (\<lambda>a b. createdAt a \<ge> createdAt b) ?srt"
    by (rule sorted_desc_sort_key)
  have 3: "CDN_METADATA_user_uploads (trackUserUpload userId fileMetadata s) userId =
       Some (take 1000 ?srt)"
    by (simp add: trackUserUpload_def Let_def)
  have 4: "length (take 1000 ?srt) \<le> 1000" by simp
  have 5: "\<forall>k \<in> set (take 1000 ?srt). \<forall>d \<in> set (drop 1000 ?srt). createdAt d \<le> createdAt k"
    using sorted_wrt_take_drop [OF 2] by blast
  show ?thesis
    by (rule exI [where x = ?srt]) (use 1 2 3 4 5 in blast)
qed

theorem trackUserUpload_keeps_most_recent_witness:
  "\<exists>srt.
     CDN_METADATA_user_uploads (trackUserUpload ''u1'' (info_example 20)
       (empty_env\<lparr>CDN_METADATA_user_uploads :=
          [''u1'' \<mapsto> [upload_example 10 30, upload_example 10 10]]\<rparr>)) ''u1'' = Some (take 1000 srt) \<and>
     length (take 1000 srt) \<le> 1000 \<and>
     sorted_wrt (\<lambda>a b. createdAt a \<ge> createdAt b) srt"
  using trackUserUpload_keeps_most_recent [of
      "empty_env\<lparr>CDN_METADATA_user_uploads :=
          [''u1'' \<mapsto> [upload_example 10 30, upload_example 10 10]]\<rparr>" "''u1''" "info_example 20"]
  by blast

text \<open>The list of the example, computed.\<close>

lemma trackUserUpload_example: "CDN_METADATA_user_uploads (trackUserUpload ''u1'' (info_example 20)
       (empty_env\<lparr>CDN_METADATA_user_uploads :=
          [''u1'' \<mapsto> [upload_example 10 30, upload_example 10 10]]\<rparr>)) ''u1'' =
     Some [upload_example 10 30,
           upload_info.extend (info_example 20) (upload.fields 20),
           upload_example 10 10]" 
  by (simp add: trackUserUpload_def empty_env_def or_else_def Let_def upload_example_def info_example_def
        upload_info.extend_def upload.fields_def upload_info.defs upload.defs)

subsection \<open>The version ledger\<close>

lemma sorted_wrt_take: "sorted_wrt R xs \<Longrightarrow> sorted_wrt R (take n xs)"
proof -
  assume "sorted_wrt R xs"
  then have "sorted_wrt R (take n xs @ drop n xs)" by simp
  then show ?thesis unfolding sorted_wrt_append by blast
qed

lemma sort_desc_strict:
  assumes "distinct xs"
  shows "sorted_wrt (\<lambda>a b. a > b) (sort_desc xs)"
proof -
  have "sorted_wrt (<) (sort xs)"
    using assms by (simp add: strict_sorted_iff)
  then have "sorted_wrt (\<lambda>a b. b < a) (rev (sort xs))"
    by (simp add: sorted_wrt_rev)
  then show ?thesis by (simp add: sort_desc_def)
qed

lemma strict_desc_distinct: "sorted_wrt (\<lambda>a b. a > b) (xs :: int list) \<Longrightarrow> distinct xs"
  by (induction xs) auto

lemma index_ok_insert:
  assumes "index_ok ix" "v \<notin> set ix"
  shows "index_ok (take 50 (sort_desc (ix @ [v])))"
proof -
  have "distinct (ix @ [v])"
    using assms by (auto simp: index_ok_def dest: strict_desc_distinct)
  then have "sorted_wrt (\<lambda>a b. a > b) (sort_desc (ix @ [v]))"
    by (rule sort_desc_strict)
  then show ?thesis
    by (simp add: index_ok_def sorted_wrt_take)
qed

lemma foldl_delete_version_version:
  "FILE_VERSIONS_version (foldl (delete_version f) s olds) k =
     (if k \<in> Pair f ` set olds then None else FILE_VERSIONS_version s k)"
  by (induction olds arbitrary: s) (auto simp: delete_version_def)

lemma foldl_delete_version_content:
  "FILE_VERSIONS_content (foldl (delete_version f) s olds) k =
     (if k \<in> Pair f ` set olds then None else FILE_VERSIONS_content s k)"
  by (induction olds arbitrary: s) (auto simp: delete_version_def)

lemma foldl_delete_version_index:
  "FILE_VERSIONS_index (foldl (delete_version f) s olds) = FILE_VERSIONS_index s"
  by (induction olds arbitrary: s) (auto simp: delete_version_def)

lemma createFileVersion_index:
  "FILE_VERSIONS_index (createFileVersion P now md usr ct chs s) =
     (if version md \<notin> set (or_else (FILE_VERSIONS_index s (id' md)) [])
      then (FILE_VERSIONS_index s)(id' md \<mapsto>
             take 50 (sort_desc (or_else (FILE_VERSIONS_index s (id' md)) [] @ [version md])))
      else FILE_VERSIONS_index s)"
  by (simp add: createFileVersion_def Let_def foldl_delete_version_index split: option.split)

lemma createFileVersion_version_cases:
  "FILE_VERSIONS_version (createFileVersion P now md usr ct chs s) k = None \<or>
   FILE_VERSIONS_version (createFileVersion P now md usr ct chs s) k = FILE_VERSIONS_version s k \<or>
   (k = (id' md, version md) \<and>
    (\<exists>w. FILE_VERSIONS_version (createFileVersion P now md usr ct chs s) k = Some w \<and>
         fv_version w = version md \<and> timestamp w = now \<and> changeType w = ct \<and> changes w = chs))"
  by (simp add: createFileVersion_def Let_def foldl_delete_version_version split: option.split)

lemma createFileVersion_evicts:
  assumes "version md \<notin> set (or_else (FILE_VERSIONS_index s (id' md)) [])"
    and "old \<in> set (drop 50 (sort_desc (or_else (FILE_VERSIONS_index s (id' md)) [] @ [version md])))"
  shows "FILE_VERSIONS_version (createFileVersion P now md usr ct chs s) (id' md, old) = None \<and>
         FILE_VERSIONS_content (createFileVersion P now md usr ct chs s) (id' md, old) = None"
  using assms
  by (simp add: createFileVersion_def Let_def foldl_delete_version_version
      foldl_delete_version_content split: option.split)

lemma versions_ok_createFileVersion:
  assumes "versions_ok s"
  shows "versions_ok (createFileVersion P now md usr ct chs s)"
proof -
  let ?s' = "createFileVersion P now md usr ct chs s"
  have ix: "index_ok (or_else (FILE_VERSIONS_index ?s' fileId) [])" for fileId
    using assms index_ok_insert [of "or_else (FILE_VERSIONS_index s (id' md)) []" "version md"]
    by (auto simp: createFileVersion_index versions_ok_def or_else_def)
  have rec: "fv_version v = n" if "FILE_VERSIONS_version ?s' (fileId, n) = Some v" for fileId n v
    using createFileVersion_version_cases [of P now md usr ct chs s "(fileId, n)"] that assms
    by (auto simp: versions_ok_def)
  show ?thesis
    unfolding versions_ok_def using ix rec by blast
qed

lemma versions_ok_empty: "versions_ok empty_env"
  by (simp add: versions_ok_def empty_env_def index_ok_def or_else_def)

text \<open>the records of the index, before the sort by time stamp\<close>

lemma listed_versions:
  assumes "versions_ok s"
  shows "map fv_version (List.map_filter (\<lambda>n. FILE_VERSIONS_version s (fileId, n)) ix) =
         filter (\<lambda>n. FILE_VERSIONS_version s (fileId, n) \<noteq> None) ix"
proof -
  have "fv_version (the (FILE_VERSIONS_version s (fileId, n))) = n"
    if "FILE_VERSIONS_version s (fileId, n) \<noteq> None" for n
    using that assms by (auto simp: versions_ok_def)
  then show ?thesis
    by (induction ix) (auto simp: List.map_filter_def)
qed

lemma getFileVersions_length:
  assumes "versions_ok s"
  shows "length (getFileVersions s fileId) \<le> 50"
proof -
  have "length (getFileVersions s fileId) \<le> length (or_else (FILE_VERSIONS_index s fileId) [])"
    by (simp add: getFileVersions_def Let_def List.map_filter_def)
  moreover have "length (or_else (FILE_VERSIONS_index s fileId) []) \<le> 50"
    using assms by (simp add: versions_ok_def index_ok_def)
  ultimately show ?thesis by linarith
qed

lemma getFileVersions_distinct:
  assumes "versions_ok s"
  shows "distinct (map fv_version (getFileVersions s fileId))"
proof -
  let ?ix = "or_else (FILE_VERSIONS_index s fileId) []"
  let ?vs = "List.map_filter (\<lambda>n. FILE_VERSIONS_version s (fileId, n)) ?ix"
  have "distinct ?ix"
    using assms by (auto simp: versions_ok_def index_ok_def dest: strict_desc_distinct)
  then have "distinct (map fv_version ?vs)"
    by (simp add: listed_versions [OF assms])
  moreover have "mset (map fv_version (getFileVersions s fileId)) = mset (map fv_version ?vs)"
    by (simp add: getFileVersions_def Let_def)
  ultimately show ?thesis
    by (metis mset_eq_imp_distinct_iff)
qed

lemma getFileVersions_by_version:
  assumes ok: "versions_ok s" and mono: "timestamps_follow_versions s fileId"
  shows "sorted_wrt (\<lambda>a b. fv_version a > fv_version b) (getFileVersions s fileId)"
proof -
  let ?ix = "or_else (FILE_VERSIONS_index s fileId) []"
  let ?look = "\<lambda>n. FILE_VERSIONS_version s (fileId, n)"
  let ?fx = "filter (\<lambda>n. ?look n \<noteq> None) ?ix"
  let ?vs = "List.map_filter ?look ?ix"
  have vs: "?vs = map (the \<circ> ?look) ?fx"
    by (simp add: List.map_filter_def)
  have desc: "sorted_wrt (\<lambda>a b. a > b) ?fx"
    using ok by (simp add: versions_ok_def index_ok_def sorted_wrt_filter)
  have num: "fv_version (the (?look n)) = n" if "n \<in> set ?fx" for n
    using that ok by (auto simp: versions_ok_def)
  have ts: "timestamp (the (?look a)) \<ge> timestamp (the (?look b))"
    if "a \<in> set ?fx" "b \<in> set ?fx" "a > b" for a b
    using that mono unfolding timestamps_follow_versions_def by fastforce
  have "sorted_wrt (\<lambda>a b. - timestamp (the (?look a)) \<le> - timestamp (the (?look b))) ?fx"
    using desc ts by (auto intro: sorted_wrt_mono_rel [rotated])
  then have "sorted (map (\<lambda>v. - timestamp v) ?vs)"
    by (simp add: vs sorted_map sorted_wrt_map)
  then have same: "getFileVersions s fileId = ?vs"
    by (simp add: getFileVersions_def Let_def sort_key_id_if_sorted)
  have "sorted_wrt (\<lambda>a b. fv_version (the (?look a)) > fv_version (the (?look b))) ?fx"
    using desc num by (auto intro: sorted_wrt_mono_rel [rotated])
  then show ?thesis
    by (simp add: same vs sorted_wrt_map)
qed

text \<open>
  \<^bold>\<open>C4\<close>, as the code has it. In a store that is in order, the listing of a file has at
  most 50 entries with pairwise different version numbers, the newest time stamp first;
  it is strictly descending by version number when the time stamps of the file's records
  do not decrease with the version number. \<open>createFileVersion\<close> keeps the store in order,
  and when it inserts a version that the index does not have, the index becomes the 50
  highest numbers and every number cut off has lost its version record and its content
  blob when the call returns.
\<close>

theorem version_listing_bounded_newest_first:
  assumes "versions_ok s"
  shows "length (getFileVersions s fileId) \<le> 50 \<and>
         sorted_wrt (\<lambda>a b. timestamp a \<ge> timestamp b) (getFileVersions s fileId) \<and>
         distinct (map fv_version (getFileVersions s fileId)) \<and>
         (timestamps_follow_versions s fileId \<longrightarrow>
            sorted_wrt (\<lambda>a b. fv_version a > fv_version b) (getFileVersions s fileId)) \<and>
         versions_ok (createFileVersion P now md usr ct chs s) \<and>
         (version md \<notin> set (or_else (FILE_VERSIONS_index s (id' md)) []) \<longrightarrow>
            FILE_VERSIONS_index (createFileVersion P now md usr ct chs s) (id' md) =
              Some (take 50 (sort_desc (or_else (FILE_VERSIONS_index s (id' md)) [] @ [version md]))) \<and>
            (\<forall>old \<in> set (drop 50 (sort_desc (or_else (FILE_VERSIONS_index s (id' md)) [] @
                                               [version md]))).
               FILE_VERSIONS_version (createFileVersion P now md usr ct chs s) (id' md, old) = None \<and>
               FILE_VERSIONS_content (createFileVersion P now md usr ct chs s) (id' md, old) = None))"
proof (intro conjI impI ballI)
  show "length (getFileVersions s fileId) \<le> 50"
    by (rule getFileVersions_length [OF assms])
  show "sorted_wrt (\<lambda>a b. timestamp a \<ge> timestamp b) (getFileVersions s fileId)"
    unfolding getFileVersions_def Let_def by (rule sorted_desc_sort_key)
  show "distinct (map fv_version (getFileVersions s fileId))"
    by (rule getFileVersions_distinct [OF assms])
  show "versions_ok (createFileVersion P now md usr ct chs s)"
    by (rule versions_ok_createFileVersion [OF assms])
next
  assume "timestamps_follow_versions s fileId"
  then show "sorted_wrt (\<lambda>a b. fv_version a > fv_version b) (getFileVersions s fileId)"
    by (rule getFileVersions_by_version [OF assms])
next
  assume new: "version md \<notin> set (or_else (FILE_VERSIONS_index s (id' md)) [])"
  then show "FILE_VERSIONS_index (createFileVersion P now md usr ct chs s) (id' md) =
      Some (take 50 (sort_desc (or_else (FILE_VERSIONS_index s (id' md)) [] @ [version md])))"
    by (simp add: createFileVersion_index)
  fix old
  assume old: "old \<in> set (drop 50 (sort_desc (or_else (FILE_VERSIONS_index s (id' md)) [] @
                                               [version md])))"
  from createFileVersion_evicts [OF new old]
  show "FILE_VERSIONS_version (createFileVersion P now md usr ct chs s) (id' md, old) = None"
    and "FILE_VERSIONS_content (createFileVersion P now md usr ct chs s) (id' md, old) = None"
    by simp_all
qed

lemma versions_ok_full_ledger: "versions_ok full_ledger"
proof -
  have "sorted_wrt (\<lambda>a b. a > b) (rev [1..50::int])"
    by (simp add: sorted_wrt_rev)
  then show ?thesis
    by (auto simp: versions_ok_def full_ledger_def empty_env_def index_ok_def or_else_def
        version_example_def)
qed

lemma evicted_example: "drop 50 (sort_desc (rev [1..50] @ [51])) = [1]"
  by code_simp

theorem version_listing_bounded_newest_first_witness:
  "length (getFileVersions full_ledger ''f1'') \<le> 50 \<and>
   sorted_wrt (\<lambda>a b. timestamp a \<ge> timestamp b) (getFileVersions full_ledger ''f1'') \<and>
   sorted_wrt (\<lambda>a b. fv_version a > fv_version b) (getFileVersions full_ledger ''f1'') \<and>
   FILE_VERSIONS_version full_ledger (''f1'', 1) = Some (version_example 1 1000) \<and>
   FILE_VERSIONS_content full_ledger (''f1'', 1) = Some ''old'' \<and>
   FILE_VERSIONS_version
     (createFileVersion platform_example 60000 (file_example 51) (user_example ''user'') Metadata
        \<lparr>ch_metadata = Some rename_example, contentSize = None, contentHash = None\<rparr> full_ledger)
     (''f1'', 1) = None \<and>
   FILE_VERSIONS_content
     (createFileVersion platform_example 60000 (file_example 51) (user_example ''user'') Metadata
        \<lparr>ch_metadata = Some rename_example, contentSize = None, contentHash = None\<rparr> full_ledger)
     (''f1'', 1) = None \<and>
   versions_ok
     (createFileVersion platform_example 60000 (file_example 51) (user_example ''user'') Metadata
        \<lparr>ch_metadata = Some rename_example, contentSize = None, contentHash = None\<rparr> full_ledger)"
proof -
  have ix: "or_else (FILE_VERSIONS_index full_ledger ''f1'') [] = rev [1..50]"
    by (simp add: full_ledger_def empty_env_def or_else_def)
  have new: "version (file_example 51) \<notin>
               set (or_else (FILE_VERSIONS_index full_ledger (id' (file_example 51))) [])"
    by (simp add: file_example_def ix)
  have mono: "timestamps_follow_versions full_ledger ''f1''"
    by (auto simp: timestamps_follow_versions_def full_ledger_def empty_env_def
        version_example_def split: if_splits)
  have old: "1 \<in> set (drop 50 (sort_desc (or_else (FILE_VERSIONS_index full_ledger
                 (id' (file_example 51))) [] @ [version (file_example 51)])))"
    by (simp add: file_example_def ix evicted_example)
  have recs: "FILE_VERSIONS_version full_ledger (''f1'', 1) = Some (version_example 1 1000)"
    "FILE_VERSIONS_content full_ledger (''f1'', 1) = Some ''old''"
    by (simp_all add: full_ledger_def empty_env_def)
  from version_listing_bounded_newest_first [OF versions_ok_full_ledger,
      of "''f1''" platform_example 60000 "file_example 51" "user_example ''user''" Metadata
      "\<lparr>ch_metadata = Some rename_example, contentSize = None, contentHash = None\<rparr>"]
    new mono old recs
  show ?thesis
    by (auto simp: file_example_def)
qed

lemma clock_example_listing: "map fv_version (getFileVersions clock_example ''f1'') = [1, 2]"
  by (simp add: clock_example_def createFileVersion_def getFileVersions_def Let_def
      empty_env_def file_example_def or_else_def sort_desc_def List.map_filter_def
      platform_example_def user_example_def)

text \<open>
  \<^bold>\<open>C4\<close>, as the claim states it, fails: the listing is sorted by time stamp, not by
  version number. Version 1 written at time 2000 and version 2 written at time 1000 (the
  clock of the second invocation behind that of the first) are listed as 1, 2.
\<close>

theorem version_listing_by_version_counterexample:
  "versions_ok clock_example \<and>
   map fv_version (getFileVersions clock_example ''f1'') = [1, 2] \<and>
   map timestamp (getFileVersions clock_example ''f1'') = [2000, 1000] \<and>
   \<not> sorted_wrt (\<lambda>a b. fv_version a > fv_version b) (getFileVersions clock_example ''f1'')"
proof -
  have ok: "versions_ok clock_example"
    unfolding clock_example_def
    by (intro versions_ok_createFileVersion versions_ok_empty)
  have ts: "map timestamp (getFileVersions clock_example ''f1'') = [2000, 1000]"
    by (simp add: clock_example_def createFileVersion_def getFileVersions_def Let_def
      empty_env_def file_example_def or_else_def sort_desc_def List.map_filter_def
      platform_example_def user_example_def)
  have "sorted_wrt (\<lambda>a b. a > b) (map fv_version (getFileVersions clock_example ''f1''))"
    if "sorted_wrt (\<lambda>a b. fv_version a > fv_version b) (getFileVersions clock_example ''f1'')"
    using that by (simp add: sorted_wrt_map)
  then have "\<not> sorted_wrt (\<lambda>a b. fv_version a > fv_version b) (getFileVersions clock_example ''f1'')"
    by (auto simp: clock_example_listing)
  with ok ts clock_example_listing show ?thesis by simp
qed

subsection \<open>Updates and restores\<close>

lemma file_versions_db_update [simp]:
  "file_versions (db_update fileId userId f s) = file_versions s"
  by (simp add: db_update_def file_versions_def split: option.split)

lemma file_versions_updateUserStorageUsage [simp]:
  "file_versions (updateUserStorageUsage now userId a b ty s) = file_versions s"
  by (simp add: updateUserStorageUsage_def file_versions_def Let_def)

lemma file_versions_other_fields [simp]:
  "file_versions (s\<lparr>FILE_CONTENT := fc\<rparr>) = file_versions s"
  "file_versions (s\<lparr>CDN_CACHE_asset := ca\<rparr>) = file_versions s"
  "file_versions (s\<lparr>CDN_METADATA_file := mf\<rparr>) = file_versions s"
  by (simp_all add: file_versions_def)

lemma foldl_delete_version_others [simp]:
  "ASSETS_DB (foldl (delete_version f) s olds) = ASSETS_DB s"
  "CDN_METADATA_file (foldl (delete_version f) s olds) = CDN_METADATA_file s"
  "CDN_METADATA_user_uploads (foldl (delete_version f) s olds) = CDN_METADATA_user_uploads s"
  "CDN_METADATA_storage_usage (foldl (delete_version f) s olds) = CDN_METADATA_storage_usage s"
  "CDN_CACHE_asset (foldl (delete_version f) s olds) = CDN_CACHE_asset s"
  "FILE_CONTENT (foldl (delete_version f) s olds) = FILE_CONTENT s"
  by (induction olds arbitrary: s) (auto simp: delete_version_def)

lemma createFileVersion_others [simp]:
  "ASSETS_DB (createFileVersion P now md usr ct chs s) = ASSETS_DB s"
  "CDN_METADATA_file (createFileVersion P now md usr ct chs s) = CDN_METADATA_file s"
  "CDN_METADATA_user_uploads (createFileVersion P now md usr ct chs s) =
     CDN_METADATA_user_uploads s"
  "CDN_METADATA_storage_usage (createFileVersion P now md usr ct chs s) =
     CDN_METADATA_storage_usage s"
  "CDN_CACHE_asset (createFileVersion P now md usr ct chs s) = CDN_CACHE_asset s"
  "FILE_CONTENT (createFileVersion P now md usr ct chs s) = FILE_CONTENT s"
  by (simp_all add: createFileVersion_def Let_def split: option.split)

lemma getFileMetadata_createFileVersion [simp]:
  "getFileMetadata (createFileVersion P now md usr ct chs s) = getFileMetadata s"
  by (rule ext) (simp add: getFileMetadata_def split: option.split)

lemma db_update_no_db: "ASSETS_DB s = None \<Longrightarrow> db_update fileId userId f s = s"
  by (simp add: db_update_def)

lemma updateUserStorageUsage_others [simp]:
  "ASSETS_DB (updateUserStorageUsage now userId a b ty s) = ASSETS_DB s"
  "CDN_METADATA_file (updateUserStorageUsage now userId a b ty s) = CDN_METADATA_file s"
  "FILE_CONTENT (updateUserStorageUsage now userId a b ty s) = FILE_CONTENT s"
  by (simp_all add: updateUserStorageUsage_def Let_def)

lemma createFileVersion_own_record:
  "FILE_VERSIONS_version (createFileVersion P now md usr ct chs s) (id' md, version md) = None \<or>
   (\<exists>w. FILE_VERSIONS_version (createFileVersion P now md usr ct chs s) (id' md, version md) = Some w \<and>
        fv_version w = version md \<and> timestamp w = now \<and> changeType w = ct \<and> changes w = chs)"
  by (simp add: createFileVersion_def Let_def foldl_delete_version_version split: option.split)

text \<open>whatever the update, the record written before it holds the request's object\<close>

lemma updateFileMetadata_record_holds_patch:
  assumes "getFileMetadata s fileId = Some m"
    and "FILE_VERSIONS_version (snd (updateFileMetadata P now fileId usr (Some updateData) s))
           (id' m, version m) = Some w"
  shows "changeType w = Metadata \<and> ch_metadata (changes w) = Some updateData"
proof -
  let ?chs = "\<lparr>ch_metadata = Some updateData, contentSize = None, contentHash = None\<rparr>"
  have "file_versions (snd (updateFileMetadata P now fileId usr (Some updateData) s)) =
        file_versions (createFileVersion P now m usr Metadata ?chs s)"
    using assms(1)
    by (simp add: updateFileMetadata_def Let_def split: option.split prod.split)
  then have "FILE_VERSIONS_version (createFileVersion P now m usr Metadata ?chs s)
               (id' m, version m) = Some w"
    using assms(2) by (simp add: file_versions_def)
  with createFileVersion_own_record [of P now m usr Metadata ?chs s]
  show ?thesis by auto
qed

text \<open>without a database, the key-value store holds the raised version after an update\<close>

lemma updateFileMetadata_kv:
  assumes "getFileMetadata s fileId = Some m" and "ASSETS_DB s = None"
  shows "getFileMetadata (snd (updateFileMetadata P now fileId usr (Some updateData) s)) fileId =
           Some ((apply_patch m updateData)\<lparr>modified := now, version := version m + 1\<rparr>)"
  using assms
  by (simp add: updateFileMetadata_def Let_def db_update_no_db getFileMetadata_def
      split: option.split prod.split)

lemma g3: "getFileMetadata (store_example v) ''f1'' = Some (file_example v)"
  by (simp add: getFileMetadata_def store_example_def empty_env_def)

lemma no_db_example: "ASSETS_DB (store_example v) = None"
  by (simp add: store_example_def empty_env_def)

lemma updateFileContent_versions:
  assumes "newContent \<noteq> []" and "getFileMetadata s fileId = Some m"
  shows "file_versions (snd (updateFileContent P now fileId usr newContent s)) =
        (case FILE_CONTENT s fileId of
           None \<Rightarrow> file_versions s
         | Some c \<Rightarrow>
             file_versions
               (createFileVersion P now m usr Content
                  \<lparr>ch_metadata = None, contentSize = Some (length c),
                   contentHash = Some (sha256_hex P c)\<rparr> s))"
  using assms by (simp add: updateFileContent_def Let_def split: option.split)

lemma cfv_example:
  "file_versions
     (createFileVersion platform_example 1000 (file_example 2) (user_example ''user'') Content
        \<lparr>ch_metadata = None, contentSize = Some (length ''aaa''),
         contentHash = Some (sha256_hex platform_example ''aaa'')\<rparr> (store_example 2)) =
   ([(''f1'', 2) \<mapsto> version_example 2 1000\<lparr>storage := \<lparr>contentBytes = 3, metadataBytes = 207\<rparr>,
                                               changes := \<lparr>ch_metadata = None, contentSize = Some 3, contentHash = Some ''h:aaa''\<rparr>\<rparr>],
    [(''f1'', 2) \<mapsto> ''aaa''], [''f1'' \<mapsto> [2]])"
  by (simp add: createFileVersion_def Let_def store_example_def empty_env_def file_example_def
      or_else_def sort_desc_def platform_example_def user_example_def file_versions_def
      version_example_def numeral_3_eq_3)

lemma updateFileContent_kv:
  assumes "getFileMetadata s fileId = Some m" and "ASSETS_DB s = None" and "newContent \<noteq> []"
  shows "getFileMetadata (snd (updateFileContent P now fileId usr newContent s)) fileId =
           Some (m\<lparr>size' := length newContent, modified := now, version := version m + 1\<rparr>)"
  using assms
  by (simp add: updateFileContent_def Let_def db_update_no_db getFileMetadata_def
      split: option.split prod.split)

text \<open>a restore of a content version answers with the next version number and leaves the
  stored metadata, version number included, as it was\<close>

lemma restoreFileVersion_content_keeps_version:
  assumes "FILE_VERSIONS_version s (fileId, ver) = Some versionData"
    and "changeType versionData = Content"
    and "getFileMetadata s fileId = Some m"
  shows "getFileMetadata (snd (restoreFileVersion P now fileId ver usr s)) = getFileMetadata s \<and>
         rbody (fst (restoreFileVersion P now fileId ver usr s)) =
           Restored fileId ver (version m + 1)"
proof -
  have "getFileMetadata (snd (restoreFileVersion P now fileId ver usr s)) f = getFileMetadata s f"
    for f
    using assms
    by (simp add: restoreFileVersion_def Let_def getFileMetadata_def split: option.split)
  moreover have "rbody (fst (restoreFileVersion P now fileId ver usr s)) =
           Restored fileId ver (version m + 1)"
    using assms by (simp add: restoreFileVersion_def Let_def json_ok_def)
  ultimately show ?thesis by auto
qed



text \<open>
  \<^bold>\<open>C1\<close> on the code. A metadata update of file \<open>f1\<close> at version 3 that renames it is
  accepted; the record written for version 3 has change type \<open>metadata\<close>, and its
  \<open>changes.metadata\<close> is the object of the request, which is not the metadata the file
  had; the live version is 4 afterwards.
\<close>

theorem updateFileMetadata_snapshot_is_patch:
  "status (fst (updateFileMetadata platform_example 5000 ''f1'' (user_example ''user'')
             (Some rename_example) (store_example 3))) = 200 \<and>
   map_option (\<lambda>w. (fv_version w, changeType w, ch_metadata (changes w)))
     (FILE_VERSIONS_version
        (snd (updateFileMetadata platform_example 5000 ''f1'' (user_example ''user'')
                (Some rename_example) (store_example 3))) (''f1'', 3)) =
     Some (3, Metadata, Some rename_example) \<and>
   rename_example \<noteq> patch_of (file_example 3) \<and>
   live_version (store_example 3) ''f1'' = Some 3 \<and>
   live_version
     (snd (updateFileMetadata platform_example 5000 ''f1'' (user_example ''user'')
             (Some rename_example) (store_example 3))) ''f1'' = Some 4"
proof -
  let ?s' = "snd (updateFileMetadata platform_example 5000 ''f1'' (user_example ''user'')
             (Some rename_example) (store_example 3))"
  have fv: "file_versions ?s' =
      file_versions (createFileVersion platform_example 5000 (file_example 3) (user_example ''user'')
        Metadata \<lparr>ch_metadata = Some rename_example, contentSize = None, contentHash = None\<rparr>
        (store_example 3))"
    by (simp add: updateFileMetadata_def g3 Let_def split: option.split prod.split)
  have rec: "map_option (\<lambda>w. (fv_version w, changeType w, ch_metadata (changes w)))
     (FILE_VERSIONS_version
        (createFileVersion platform_example 5000 (file_example 3) (user_example ''user'')
        Metadata \<lparr>ch_metadata = Some rename_example, contentSize = None, contentHash = None\<rparr>
        (store_example 3)) (''f1'', 3)) = Some (3, Metadata, Some rename_example)"
    by (simp add: createFileVersion_def Let_def store_example_def empty_env_def file_example_def
        or_else_def sort_desc_def)
  have 1: "status (fst (updateFileMetadata platform_example 5000 ''f1'' (user_example ''user'')
             (Some rename_example) (store_example 3))) = 200"
    by (simp add: updateFileMetadata_def g3 Let_def json_ok_def split: option.split prod.split)
  have 2: "map_option (\<lambda>w. (fv_version w, changeType w, ch_metadata (changes w)))
     (FILE_VERSIONS_version ?s' (''f1'', 3)) = Some (3, Metadata, Some rename_example)"
    using fv rec by (simp add: file_versions_def)
  have 3: "rename_example \<noteq> patch_of (file_example 3)"
  proof
    assume "rename_example = patch_of (file_example 3)"
    then have "p_name rename_example = p_name (patch_of (file_example 3))" by simp
    then show False
      by (simp add: rename_example_def patch_of_def file_example_def)
  qed
  have 4: "live_version (store_example 3) ''f1'' = Some 3"
    by (simp add: live_version_def g3 file_example_def)
  have 5: "live_version ?s' ''f1'' = Some 4"
    by (simp add: live_version_def updateFileMetadata_kv [OF g3 no_db_example] file_example_def)
  from 1 2 3 4 5 show ?thesis by simp
qed

text \<open>
  \<^bold>\<open>C2\<close> on the code. File \<open>f1\<close> is at version 3 after one content update, whose record
  for version 2 has change type \<open>content\<close>. Restoring version 2 answers \<open>newVersion: 4\<close>
  and the live version is still 3.
\<close>

theorem restoreFileVersion_content_version_not_raised:
  "live_version after_content_update ''f1'' = Some 3 \<and>
   map_option changeType (FILE_VERSIONS_version after_content_update (''f1'', 2)) = Some Content \<and>
   rbody (fst (restoreFileVersion platform_example 2000 ''f1'' 2 (user_example ''user'')
                 after_content_update)) = Restored ''f1'' 2 4 \<and>
   live_version (snd (restoreFileVersion platform_example 2000 ''f1'' 2 (user_example ''user'')
                        after_content_update)) ''f1'' = Some 3"
proof -
  have m: "getFileMetadata after_content_update ''f1'' =
      Some ((file_example 2)\<lparr>size' := length ''bbbb'', modified := 1000, version := 3\<rparr>)"
    unfolding after_content_update_def
    using updateFileContent_kv [OF g3 [of 2] no_db_example [of 2], where newContent = "''bbbb''"
        and P = platform_example and now = 1000 and usr = "user_example ''user''"]
    by (simp add: file_example_def)
  have fv: "file_versions after_content_update =
      ([(''f1'', 2) \<mapsto> version_example 2 1000
          \<lparr>storage := \<lparr>contentBytes = 3, metadataBytes = 207\<rparr>,
            changes := \<lparr>ch_metadata = None, contentSize = Some 3, contentHash = Some ''h:aaa''\<rparr>\<rparr>],
       [(''f1'', 2) \<mapsto> ''aaa''], [''f1'' \<mapsto> [2]])"
    unfolding after_content_update_def
    using updateFileContent_versions [of "''bbbb''" "store_example 2" "''f1''" "file_example 2"
        platform_example 1000 "user_example ''user''"] g3 [of 2] cfv_example
    by (simp add: store_example_def)
  then have rec: "FILE_VERSIONS_version after_content_update (''f1'', 2) =
      Some (version_example 2 1000
          \<lparr>storage := \<lparr>contentBytes = 3, metadataBytes = 207\<rparr>,
            changes := \<lparr>ch_metadata = None, contentSize = Some 3, contentHash = Some ''h:aaa''\<rparr>\<rparr>)"
    by (simp add: file_versions_def)
  have ct: "changeType (version_example 2 1000
          \<lparr>storage := \<lparr>contentBytes = 3, metadataBytes = 207\<rparr>,
            changes := \<lparr>ch_metadata = None, contentSize = Some 3, contentHash = Some ''h:aaa''\<rparr>\<rparr>) =
        Content"
    by (simp add: version_example_def)
  note R = restoreFileVersion_content_keeps_version [OF rec ct m, of platform_example 2000
      "user_example ''user''"]
  have 1: "live_version after_content_update ''f1'' = Some 3"
    by (simp add: live_version_def m)
  have 2: "map_option changeType (FILE_VERSIONS_version after_content_update (''f1'', 2)) =
      Some Content"
    by (simp add: rec ct)
  have 3: "rbody (fst (restoreFileVersion platform_example 2000 ''f1'' 2 (user_example ''user'')
                 after_content_update)) = Restored ''f1'' 2 4"
    using R by simp
  have 4: "live_version (snd (restoreFileVersion platform_example 2000 ''f1'' 2
      (user_example ''user'') after_content_update)) ''f1'' = Some 3"
    using R by (simp add: live_version_def m)
  from 1 2 3 4 show ?thesis by simp
qed

subsection \<open>Version records under a patched id\<close>

text \<open>The spread of the request body over the current metadata lets a patch replace the
  \<^verbatim>\<open>id\<close> field, and \<^verbatim>\<open>createFileVersion\<close> keys its record by the
  \<^verbatim>\<open>id\<close> field of the metadata it is given. The next update of the first file therefore
  writes its record into the ledger of the second file, under a version number already in use
  there, with a later timestamp. The clock only moves forward in this run, and the listing of the
  second file is still not in descending order of version.\<close>

lemma updateFileMetadata_versions:
  assumes "getFileMetadata s fileId = Some m"
  shows "file_versions (snd (updateFileMetadata P now fileId usr (Some updateData) s)) =
         file_versions (createFileVersion P now m usr Metadata
           \<lparr>ch_metadata = Some updateData, contentSize = None, contentHash = None\<rparr> s)"
  using assms
  by (simp add: updateFileMetadata_def Let_def split: option.split prod.split)

lemma updateFileMetadata_kv_all:
  assumes "getFileMetadata s fileId = Some m" and "ASSETS_DB s = None"
  shows "getFileMetadata (snd (updateFileMetadata P now fileId usr (Some updateData) s)) =
           (getFileMetadata s)(fileId \<mapsto>
              (apply_patch m updateData)\<lparr>modified := now, version := version m + 1\<rparr>)"
  using assms
  by (intro ext)
     (simp add: updateFileMetadata_def Let_def db_update_no_db getFileMetadata_def
      split: option.split prod.split)

lemma updateFileMetadata_no_db:
  assumes "ASSETS_DB s = None"
  shows "ASSETS_DB (snd (updateFileMetadata P now fileId usr updateData s)) = None"
  using assms
  by (simp add: updateFileMetadata_def Let_def db_update_no_db
      split: option.split prod.split)

lemma createFileVersion_metadata_cong:
  assumes "file_versions s = file_versions t"
  shows "file_versions (createFileVersion P now m usr Metadata chs s) =
         file_versions (createFileVersion P now m usr Metadata chs t)"
proof -
  have e: "FILE_VERSIONS_version s = FILE_VERSIONS_version t"
    "FILE_VERSIONS_content s = FILE_VERSIONS_content t"
    "FILE_VERSIONS_index s = FILE_VERSIONS_index t"
    using assms by (simp_all add: file_versions_def)
  show ?thesis
    unfolding file_versions_def prod.inject
    by (intro conjI ext)
       (simp_all add: createFileVersion_def Let_def e foldl_delete_version_index
          foldl_delete_version_version foldl_delete_version_content)
qed

lemma update_at_versions:
  "getFileMetadata s fileId = Some m \<Longrightarrow> file_versions (update_at now fileId p s) = file_versions (record_at now m p s)"
  unfolding update_at_def record_at_def meta_change_def by (rule updateFileMetadata_versions)

lemma record_at_cong: "file_versions s = file_versions t \<Longrightarrow> file_versions (record_at now m p s) = file_versions (record_at now m p t)"
  unfolding record_at_def by (rule createFileVersion_metadata_cong)

lemma update_at_get:
  "getFileMetadata s fileId = Some m \<Longrightarrow> ASSETS_DB s = None \<Longrightarrow>
   getFileMetadata (update_at now fileId p s) =
     (getFileMetadata s)(fileId \<mapsto> (apply_patch m p)\<lparr>modified := now, version := version m + 1\<rparr>)"
  unfolding update_at_def by (rule updateFileMetadata_kv_all)

lemma update_at_no_db: "ASSETS_DB s = None \<Longrightarrow> ASSETS_DB (update_at now fileId p s) = None"
  unfolding update_at_def by (rule updateFileMetadata_no_db)

lemma five_updates_versions:
  "file_versions five_updates =
   file_versions
    (record_at 5000 f1_1 (describe ''e'')
      (record_at 4000 (file_example 1) (empty_patch\<lparr>p_id := Some ''f2''\<rparr>)
        (record_at 3000 f2_2 (describe ''c'')
          (record_at 2000 f2_1 (describe ''b'')
            (record_at 1000 f2_0 (describe ''a'') two_files)))))"
proof -
  let ?s1 = "update_at 1000 ''f2'' (describe ''a'') two_files"
  let ?s2 = "update_at 2000 ''f2'' (describe ''b'') ?s1"
  let ?s3 = "update_at 3000 ''f2'' (describe ''c'') ?s2"
  let ?s4 = "update_at 4000 ''f1'' (empty_patch\<lparr>p_id := Some ''f2''\<rparr>) ?s3"
  have d0: "ASSETS_DB two_files = None"
    by (simp add: two_files_def empty_env_def)
  have m0: "getFileMetadata two_files ''f2'' = Some f2_0"
    and n0: "getFileMetadata two_files ''f1'' = Some (file_example 1)"
    by (simp_all add: getFileMetadata_def two_files_def empty_env_def f2_0_def)
  have vs: "version f2_0 = 1" "version f2_1 = 2" "version f2_2 = 3"
    "version (file_example 1) = 1"
    by (simp_all add: f2_0_def f2_1_def f2_2_def file_example_def)
  have d1: "ASSETS_DB ?s1 = None" by (intro update_at_no_db d0)
  have d2: "ASSETS_DB ?s2 = None" by (intro update_at_no_db d0)
  have d3: "ASSETS_DB ?s3 = None" by (intro update_at_no_db d0)
  have m1: "getFileMetadata ?s1 ''f2'' = Some f2_1"
    and n1: "getFileMetadata ?s1 ''f1'' = Some (file_example 1)"
    by (simp_all add: update_at_get [OF m0 d0] n0 f2_1_def vs)
  have m2: "getFileMetadata ?s2 ''f2'' = Some f2_2"
    and n2: "getFileMetadata ?s2 ''f1'' = Some (file_example 1)"
    by (simp_all add: update_at_get [OF m1 d1] n1 f2_2_def vs)
  have n3: "getFileMetadata ?s3 ''f1'' = Some (file_example 1)"
    by (simp add: update_at_get [OF m2 d2] n2 vs)
  have n4: "getFileMetadata ?s4 ''f1'' = Some f1_1"
    by (simp add: update_at_get [OF n3 d3] f1_1_def vs)
  have v1: "file_versions ?s1 = file_versions (record_at 1000 f2_0 (describe ''a'') two_files)"
    by (rule update_at_versions [OF m0])
  have v2: "file_versions ?s2 =
      file_versions (record_at 2000 f2_1 (describe ''b'') (record_at 1000 f2_0 (describe ''a'') two_files))"
    using update_at_versions [OF m1] record_at_cong [OF v1] by (rule trans)
  have v3: "file_versions ?s3 =
      file_versions (record_at 3000 f2_2 (describe ''c'')
        (record_at 2000 f2_1 (describe ''b'') (record_at 1000 f2_0 (describe ''a'') two_files)))"
    using update_at_versions [OF m2] record_at_cong [OF v2] by (rule trans)
  have v4: "file_versions ?s4 =
      file_versions (record_at 4000 (file_example 1) (empty_patch\<lparr>p_id := Some ''f2''\<rparr>)
       (record_at 3000 f2_2 (describe ''c'')
        (record_at 2000 f2_1 (describe ''b'') (record_at 1000 f2_0 (describe ''a'') two_files))))"
    using update_at_versions [OF n3] record_at_cong [OF v3] by (rule trans)
  show ?thesis
    unfolding five_updates_def
    using update_at_versions [OF n4] record_at_cong [OF v4] by (rule trans)
qed

lemma five_updates_listing:
  "map (\<lambda>v. (fv_version v, timestamp v)) (getFileVersions five_updates ''f2'') =
     [(2, 5000), (3, 3000), (1, 1000)]"
proof -
  have ids: "id' f2_0 = ''f2''" "id' f2_1 = ''f2''" "id' f2_2 = ''f2''" "id' f1_1 = ''f2''"
    "id' (file_example 1) = ''f1''"
    "version f2_0 = 1" "version f2_1 = 2" "version f2_2 = 3" "version f1_1 = 2"
    "version (file_example 1) = 1"
    by (simp_all add: f2_0_def f2_1_def f2_2_def f1_1_def file_example_def apply_patch_def
        describe_def empty_patch_def or_else_def)
  have "getFileVersions five_updates ''f2'' =
    getFileVersions (record_at 5000 f1_1 (describe ''e'')
      (record_at 4000 (file_example 1) (empty_patch\<lparr>p_id := Some ''f2''\<rparr>)
        (record_at 3000 f2_2 (describe ''c'')
          (record_at 2000 f2_1 (describe ''b'')
            (record_at 1000 f2_0 (describe ''a'') two_files))))) ''f2''"
    using five_updates_versions by (simp add: getFileVersions_def file_versions_def)
  then show ?thesis
    by (simp add: record_at_def createFileVersion_def getFileVersions_def Let_def ids
      two_files_def empty_env_def or_else_def sort_desc_def List.map_filter_def)
qed

subsection \<open>The cache layers of the worker proxy\<close>













subsection \<open>The shape of a generated path\<close>

lemma slash_free_append [simp]: "slash_free (a @ b) \<longleftrightarrow> slash_free a \<and> slash_free b"
  by (auto simp: slash_free_def)

lemma slash_free_Nil [simp]: "slash_free []"
  by (simp add: slash_free_def)




















end
